theory Spec2Isabelle
  imports Complex_Main
begin

section \<open>Audio buffers\<close>

text \<open>
  The service (\<^verbatim>\<open>services/frog-api/main.py\<close>) works on numpy arrays of float samples.
  A one-dimensional buffer is a list of samples. Samples are taken as real numbers: the
  model has no NaN and no infinity. Where the code branches on a comparison of computed
  floats (the RMS of a window), the computed value is a parameter, rounding included;
  elsewhere the arithmetic is the one the code writes down, carried out exactly.
\<close>

type_synonym buffer = "real list"

subsection \<open>Peak normalisation\<close>

text \<open>
  \<^verbatim>\<open>
  PEAK_LEVEL = 0.98

  def peak_normalize(y, peak=PEAK_LEVEL):
      max_val = np.max(np.abs(y)) if y.size else 0.0
      if max_val > 0:
          return (y / max_val) * peak
      return y
  \<close>
\<close>

definition PEAK_LEVEL :: real where
  "PEAK_LEVEL = 98 / 100"

definition max_abs :: "buffer \<Rightarrow> real" where
  "max_abs y = (if y \<noteq> [] then Max (set (map abs y)) else 0)"

definition peak_normalize :: "buffer \<Rightarrow> real \<Rightarrow> buffer" where
  "peak_normalize y peak =
     (let max_val = max_abs y
      in if max_val > 0 then map (\<lambda>x. (x / max_val) * peak) y else y)"

subsection \<open>Python and numpy primitives\<close>

text \<open>
  An exception is carried as its message. \<^verbatim>\<open>int(x)\<close> on a float truncates towards zero;
  a slice \<^verbatim>\<open>xs[a:b]\<close> counts a negative bound from the end and clips both bounds to the
  list; \<^verbatim>\<open>range(0, stop, step)\<close> raises on a zero step, which its callers check first.
\<close>

type_synonym exn = string

definition py_int :: "real \<Rightarrow> int" where
  "py_int x = (if 0 \<le> x then \<lfloor>x\<rfloor> else \<lceil>x\<rceil>)"

definition py_slice :: "'a list \<Rightarrow> int \<Rightarrow> int \<Rightarrow> 'a list" where
  "py_slice xs a b =
     (let n = int (length xs);
          lo = (if a < 0 then max (a + n) 0 else min a n);
          hi = (if b < 0 then max (b + n) 0 else min b n)
      in take (nat (hi - lo)) (drop (nat lo) xs))"

definition py_range0 :: "int \<Rightarrow> int \<Rightarrow> int list" where
  "py_range0 stop step =
     (if step > 0 then
        (if 0 < stop then map (\<lambda>k. int k * step) [0..<nat ((stop - 1) div step + 1)] else [])
      else
        (if stop < 0 then map (\<lambda>k. int k * step) [0..<nat ((- stop - 1) div (- step) + 1)] else []))"

text \<open>
  \<^verbatim>\<open>np.mean\<close> of an empty array is NaN (with a warning), which no real number stands for:
  \<open>np_mean\<close> is the mean of a non-empty array, and the one place where the code can take
  the mean of an empty array and then branch on it, the RMS of a window, has its own
  option-valued definition below.
\<close>

definition np_mean :: "real list \<Rightarrow> real" where
  "np_mean xs = sum_list xs / real (length xs)"

definition np_std :: "real list \<Rightarrow> real" where
  "np_std xs = sqrt (np_mean (map (\<lambda>x. \<bar>x - np_mean xs\<bar> ^ 2) xs))"

subsection \<open>What the runtime decides\<close>

text \<open>
  Some results are fixed by the Python runtime and the numpy build, not by the service:
  the clock, the formatting of a float with two decimals, the order in which a set of
  strings is iterated, and two results of numpy that depend on its floating-point and
  sorting routines. They are parameters of the model.

  \<open>np_sqrt_mean_square w\<close> is the float that \<^verbatim>\<open>np.sqrt(np.mean(w**2))\<close> evaluates to on a
  non-empty array, rounding included, or \<open>None\<close> when it is NaN. \<open>np_argsort p\<close> is what
  \<^verbatim>\<open>np.argsort(p)\<close> returns: the default sort kind puts the indices in ascending order of
  their values and promises nothing about the order of indices with equal values.
  \<open>argsort_contract\<close> says that much of a result, and no more.
\<close>

record runtime =
  utcnow_strftime :: string
  utcnow_isoformat :: string
  format_2f :: "real \<Rightarrow> string"
  set_iteration :: "string list \<Rightarrow> string list"
  np_sqrt_mean_square :: "real list \<Rightarrow> real option"
  np_argsort :: "real list \<Rightarrow> nat list"

definition argsort_contract :: "runtime \<Rightarrow> real list \<Rightarrow> bool" where
  "argsort_contract rt p \<longleftrightarrow>
     length (np_argsort rt p) = length p
     \<and> distinct (np_argsort rt p)
     \<and> list_all (\<lambda>i. i < length p) (np_argsort rt p)
     \<and> sorted (map (\<lambda>i. p ! i) (np_argsort rt p))"

subsection \<open>Channel collapse\<close>

text \<open>
  \<^verbatim>\<open>
  def to_mono(y):
      if y.ndim == 1:
          return y
      if y.shape[0] <= 8 and y.shape[1] > 8:  # channels-first
          return np.mean(y, axis=0)
      return np.mean(y, axis=-1)  # channels-last
  \<close>
  The decoder returns a one- or a two-dimensional array. A two-dimensional array is the
  list of its rows, all of one length.
\<close>

datatype ndarray = Arr1 buffer | Arr2 "real list list"

definition shape0 :: "real list list \<Rightarrow> nat" where
  "shape0 rows = length rows"

definition shape1 :: "real list list \<Rightarrow> nat" where
  "shape1 rows = (case rows of [] \<Rightarrow> 0 | r # _ \<Rightarrow> length r)"

fun to_mono :: "ndarray \<Rightarrow> buffer" where
  "to_mono (Arr1 y) = y"
| "to_mono (Arr2 rows) =
     (if shape0 rows \<le> 8 \<and> shape1 rows > 8
      then map (\<lambda>j. np_mean (map (\<lambda>r. r ! j) rows)) [0..<shape1 rows]
      else map np_mean rows)"

subsection \<open>The signal-processing library\<close>

text \<open>
  The functions of librosa that the service calls are not part of the repository: they
  are parameters of the model. Each returns its result or raises.
\<close>

record librosa =
  effects_trim :: "buffer \<Rightarrow> real \<Rightarrow> exn + buffer"
  resample :: "buffer \<Rightarrow> int \<Rightarrow> int \<Rightarrow> exn + buffer"
  effects_preemphasis :: "buffer \<Rightarrow> real \<Rightarrow> exn + buffer"
  load :: "string \<Rightarrow> exn + ndarray \<times> int"
  spectral_centroid :: "buffer \<Rightarrow> int \<Rightarrow> exn + real list list"
  spectral_bandwidth :: "buffer \<Rightarrow> int \<Rightarrow> exn + real list list"
  spectral_rolloff :: "buffer \<Rightarrow> int \<Rightarrow> exn + real list list"
  mfcc :: "buffer \<Rightarrow> int \<Rightarrow> nat \<Rightarrow> exn + real list list"
  zero_crossing_rate :: "buffer \<Rightarrow> exn + real list list"
  feature_rms :: "buffer \<Rightarrow> exn + real list list"

subsection \<open>Silence trim\<close>

text \<open>
  \<^verbatim>\<open>
  def trim_silence(y, top_db=30.0):
      yt, _ = librosa.effects.trim(y, top_db=top_db)
      return yt if yt.size > 0 else y
  \<close>
\<close>

definition trim_silence :: "librosa \<Rightarrow> buffer \<Rightarrow> real \<Rightarrow> exn + buffer" where
  "trim_silence lib y top_db =
     (case effects_trim lib y top_db of
        Inl e \<Rightarrow> Inl e
      | Inr yt \<Rightarrow> Inr (if length yt > 0 then yt else y))"

subsection \<open>Window selection\<close>

text \<open>
  \<^verbatim>\<open>
  TARGET_SR = 22050
  TARGET_DURATION = 10.0

  def find_best_10s_window(y, sr, target_duration=TARGET_DURATION):
      window_samples = int(target_duration * sr)
      if len(y) <= window_samples:
          return y
      hop = sr
      best_rms = -1
      best_start = 0
      for start in range(0, len(y) - window_samples + 1, hop):
          window = y[start:start + window_samples]
          rms = np.sqrt(np.mean(window**2))
          if rms > best_rms:
              best_rms = rms
              best_start = start
      return y[best_start:best_start + window_samples]
  \<close>
  The RMS is computed in floating point: \<open>rms\<close> is the runtime's value. The RMS of an
  empty window is NaN, and a comparison with NaN is false: \<open>rms\<close> is \<open>None\<close> there and
  the loop keeps its state.
\<close>

definition TARGET_SR :: int where
  "TARGET_SR = 22050"

definition TARGET_DURATION :: real where
  "TARGET_DURATION = 10"

definition PRE_EMPHASIS_COEF :: real where
  "PRE_EMPHASIS_COEF = 97 / 100"

definition rms :: "runtime \<Rightarrow> buffer \<Rightarrow> real option" where
  "rms rt window = (if window = [] then None else np_sqrt_mean_square rt window)"

definition window_at :: "buffer \<Rightarrow> int \<Rightarrow> int \<Rightarrow> buffer" where
  "window_at y window_samples start = py_slice y start (start + window_samples)"

definition window_step ::
  "runtime \<Rightarrow> buffer \<Rightarrow> int \<Rightarrow> int \<Rightarrow> real \<times> int \<Rightarrow> real \<times> int" where
  "window_step rt y window_samples start st =
     (case rms rt (window_at y window_samples start) of
        None \<Rightarrow> st
      | Some r \<Rightarrow> if r > fst st then (r, start) else st)"

definition window_starts :: "buffer \<Rightarrow> int \<Rightarrow> int \<Rightarrow> int list" where
  "window_starts y window_samples hop = py_range0 (int (length y) - window_samples + 1) hop"

definition find_best_10s_window :: "runtime \<Rightarrow> buffer \<Rightarrow> int \<Rightarrow> real \<Rightarrow> exn + buffer" where
  "find_best_10s_window rt y sr target_duration =
     (let window_samples = py_int (target_duration * real_of_int sr)
      in if int (length y) \<le> window_samples then Inr y
         else let hop = sr
              in if hop = 0 then Inl ''range() arg 3 must not be zero''
                 else let best = fold (window_step rt y window_samples)
                                   (window_starts y window_samples hop) (-1, 0);
                          best_start = snd best
                      in Inr (window_at y window_samples best_start))"

subsection \<open>Duration standardisation and the whole normaliser\<close>

text \<open>
  \<^verbatim>\<open>
  def standardize_duration(y, sr, target_seconds):
      target_len = int(target_seconds * sr)
      if y.shape[0] > target_len:
          return y[:target_len]
      if y.shape[0] < target_len:
          pad = target_len - y.shape[0]
          return np.pad(y, (0, pad), mode="constant")
      return y

  def normalize_audio(y, sr, apply_preemphasis=True):
      y = to_mono(y)
      y = trim_silence(y, top_db=30.0)
      y = find_best_10s_window(y, sr, TARGET_DURATION)
      if sr != TARGET_SR:
          y = librosa.resample(y=y, orig_sr=sr, target_sr=TARGET_SR)
          sr = TARGET_SR
      y = standardize_duration(y, sr, TARGET_DURATION)
      if apply_preemphasis:
          y = librosa.effects.preemphasis(y, coef=PRE_EMPHASIS_COEF)
      y = peak_normalize(y, PEAK_LEVEL)
      return y, sr
  \<close>
\<close>

definition standardize_duration :: "buffer \<Rightarrow> int \<Rightarrow> real \<Rightarrow> buffer" where
  "standardize_duration y sr target_seconds =
     (let target_len = py_int (target_seconds * real_of_int sr)
      in if int (length y) > target_len then py_slice y 0 target_len
         else if int (length y) < target_len
           then y @ replicate (nat (target_len - int (length y))) 0
         else y)"

definition normalize_audio ::
  "runtime \<Rightarrow> librosa \<Rightarrow> ndarray \<Rightarrow> int \<Rightarrow> bool \<Rightarrow> exn + buffer \<times> int" where
  "normalize_audio rt lib y0 sr0 apply_preemphasis =
     (case trim_silence lib (to_mono y0) 30 of
        Inl e \<Rightarrow> Inl e
      | Inr y1 \<Rightarrow>
     (case find_best_10s_window rt y1 sr0 TARGET_DURATION of
        Inl e \<Rightarrow> Inl e
      | Inr y2 \<Rightarrow>
     (case (if sr0 \<noteq> TARGET_SR
            then map_sum id (\<lambda>y. (y, TARGET_SR)) (resample lib y2 sr0 TARGET_SR)
            else Inr (y2, sr0)) of
        Inl e \<Rightarrow> Inl e
      | Inr (y3, sr) \<Rightarrow>
     (let y4 = standardize_duration y3 sr TARGET_DURATION
      in case (if apply_preemphasis then effects_preemphasis lib y4 PRE_EMPHASIS_COEF
               else Inr y4) of
           Inl e \<Rightarrow> Inl e
         | Inr y5 \<Rightarrow> Inr (peak_normalize y5 PEAK_LEVEL, sr)))))"

section \<open>The prediction service\<close>

subsection \<open>Strings and paths\<close>

text \<open>
  Decimal formatting of integers as \<^verbatim>\<open>str\<close> and an f-string do it, \<^verbatim>\<open>sep.join\<close>,
  \<^verbatim>\<open>str.lower\<close> and \<^verbatim>\<open>os.path.splitext\<close> of the standard library (its POSIX form:
  the extension starts at the last dot of the last path component, and leading dots of
  that component do not start one). Strings are byte strings here, and \<open>lower\<close> changes
  the ASCII capital letters only; no other character lowers to a character of the
  extensions the service compares with.
\<close>

definition digit_char :: "nat \<Rightarrow> char" where
  "digit_char d = ''0123456789'' ! d"

function str_nat :: "nat \<Rightarrow> string" where
  "str_nat n = (if n < 10 then [digit_char n] else str_nat (n div 10) @ [digit_char (n mod 10)])"
  by pat_completeness auto
termination
  by (relation "measure id") auto

definition str_int :: "int \<Rightarrow> string" where
  "str_int i = (if i < 0 then CHR ''-'' # str_nat (nat (- i)) else str_nat (nat i))"

fun join :: "string \<Rightarrow> string list \<Rightarrow> string" where
  "join sep [] = []"
| "join sep [x] = x"
| "join sep (x # xs) = x @ sep @ join sep xs"

definition lower_char :: "char \<Rightarrow> char" where
  "lower_char c =
     (case map_of (zip ''ABCDEFGHIJKLMNOPQRSTUVWXYZ'' ''abcdefghijklmnopqrstuvwxyz'') c of
        None \<Rightarrow> c
      | Some l \<Rightarrow> l)"

definition lower :: "string \<Rightarrow> string" where
  "lower s = map lower_char s"

definition rfind :: "string \<Rightarrow> char \<Rightarrow> int" where
  "rfind p c =
     (case filter (\<lambda>i. p ! i = c) (rev [0..<length p]) of [] \<Rightarrow> - 1 | i # _ \<Rightarrow> int i)"

definition splitext :: "string \<Rightarrow> string \<times> string" where
  "splitext p =
     (let sepIndex = rfind p CHR ''/'';
          dotIndex = rfind p CHR ''.''
      in if dotIndex > sepIndex
            \<and> list_ex (\<lambda>i. p ! i \<noteq> CHR ''.'') [nat (sepIndex + 1)..<nat dotIndex]
         then (take (nat dotIndex) p, drop (nat dotIndex) p)
         else (p, []))"

subsection \<open>The loaded artifacts\<close>

text \<open>
  The classifier and the scaler are opaque objects loaded with joblib: their methods are
  parameters. A value returned by the classifier is a \<^verbatim>\<open>str\<close>, an \<^verbatim>\<open>int\<close>, or
  something else that is known by its \<^verbatim>\<open>str()\<close>. \<open>model_n_features_in\<close>,
  \<open>model_classes\<close> and \<open>model_predict_proba\<close> are \<open>None\<close> when the object has no such
  attribute; \<open>model_classes\<close> holds the \<^verbatim>\<open>str()\<close> of each class.
\<close>

datatype pyval = PyStr string | PyInt int | PyOther string

record model =
  model_n_features_in :: "int option"
  model_classes :: "string list option"
  model_predict :: "real list \<Rightarrow> exn + pyval list"
  model_predict_proba :: "(real list \<Rightarrow> exn + real list) option"

type_synonym scaler = "real list \<Rightarrow> exn + real list"

text \<open>
  The storage client: an upload of bytes under a path with a content type, an insert of a
  metadata record into the predictions table, and the URL that the service reads out of
  the answer to a request for a signed URL (\<open>None\<close> when the answer holds none).
\<close>

record metadata =
  md_filename :: string
  md_original_filename :: string
  md_prediction :: pyval
  md_top_3_predictions :: "(string \<times> real) list option"
  md_all_probabilities :: "real list option"
  md_timestamp :: string

record storage_client =
  storage_upload :: "string \<Rightarrow> string \<Rightarrow> string \<Rightarrow> exn + string"
  table_insert :: "metadata \<Rightarrow> exn + string"
  create_signed_url :: "string \<Rightarrow> nat \<Rightarrow> exn + string option"

record inference_context =
  model :: model
  scaler :: "scaler option"
  feature_names :: "string list option"
  supabase :: "storage_client option"
  SAVE_UPLOADS :: bool

subsection \<open>Responses, errors and effects\<close>

record prediction_response =
  prediction :: pyval
  top_3 :: "(string \<times> real) list option"
  probabilities :: "real list option"
  filename :: "string option"
  signed_url :: "string option"
  signed_url_expires_in :: "nat option"

text \<open>
  A request ends with a response, with an \<^verbatim>\<open>HTTPException\<close> (status code and detail), or
  with an exception that no handler of the service catches.
\<close>

datatype http_error = HTTPException nat string | Unhandled exn

text \<open>
  The calls a request makes to its collaborators, in order. A background save is an event
  of the request that schedules it; what the save does is in \<open>background_save\<close>.
\<close>

datatype event =
    ScalerTransform "real list"
  | ModelPredict "real list"
  | ModelPredictProba "real list"
  | FileRead
  | LibrosaLoad
  | NormalizeAudio
  | ExtractFeatures
  | ScheduleSave string
  | CreateSignedUrl string
  | StorageUpload string
  | TableInsert string
  | Print string

subsection \<open>Top-3\<close>

text \<open>
  \<^verbatim>\<open>
  top_3_indices = np.argsort(proba)[::-1][:3]
  top_3 = [{"species": str(model.classes_[idx]), "confidence": float(proba[idx])}
           for idx in top_3_indices]
  \<close>
  The result of \<^verbatim>\<open>np.argsort\<close> is the runtime's.
\<close>

definition top_3_indices :: "runtime \<Rightarrow> real list \<Rightarrow> nat list" where
  "top_3_indices rt proba = take 3 (rev (np_argsort rt proba))"

definition top_3_entries ::
  "runtime \<Rightarrow> string list \<Rightarrow> real list \<Rightarrow> exn + (string \<times> real) list" where
  "top_3_entries rt cls proba =
     (if list_all (\<lambda>idx. idx < length cls) (top_3_indices rt proba)
      then Inr (map (\<lambda>idx. (cls ! idx, proba ! idx)) (top_3_indices rt proba))
      else Inl ''index is out of bounds'')"

definition prediction_value :: "pyval \<Rightarrow> pyval" where
  "prediction_value p = (case p of PyStr s \<Rightarrow> PyStr s | PyInt i \<Rightarrow> PyInt i | PyOther s \<Rightarrow> PyStr s)"

definition str_pyval :: "pyval \<Rightarrow> string" where
  "str_pyval p = (case p of PyStr s \<Rightarrow> s | PyInt i \<Rightarrow> str_int i | PyOther s \<Rightarrow> s)"

subsection \<open>Feature-vector prediction\<close>

text \<open>
  \<^verbatim>\<open>
  expected_dim = model.n_features_in_ if hasattr(model, "n_features_in_") else None
  if expected_dim and X.shape[1] != expected_dim:
      raise HTTPException(...)
  \<close>
  \<open>dimension_mismatch\<close> is the expected dimension when this test raises.
\<close>

definition dimension_mismatch :: "model \<Rightarrow> nat \<Rightarrow> int option" where
  "dimension_mismatch m width =
     (case model_n_features_in m of
        None \<Rightarrow> None
      | Some expected_dim \<Rightarrow>
          if expected_dim \<noteq> 0 \<and> int width \<noteq> expected_dim then Some expected_dim else None)"

text \<open>
  \<^verbatim>\<open>
  if scaler is not None:
      X = scaler.transform(X)
  \<close>
\<close>

definition apply_scaler :: "inference_context \<Rightarrow> real list \<Rightarrow> event list \<times> (exn + real list)" where
  "apply_scaler ctx X =
     (case scaler ctx of
        None \<Rightarrow> ([], Inr X)
      | Some transform \<Rightarrow> ([ScalerTransform X], transform X))"

text \<open>
  \<^verbatim>\<open>
  proba = model.predict_proba(X)[0]
  proba_list = proba.tolist()
  if hasattr(model, 'classes_'):
      top_3_indices = ...
      top_3 = [...]
  else:
      top_3 = None
  \<close>
  The two endpoints share these lines; they differ in what happens when the lines raise.
  A model without \<^verbatim>\<open>predict_proba\<close> raises an \<^verbatim>\<open>AttributeError\<close> here.
\<close>

definition predict_probabilities ::
  "runtime \<Rightarrow> model \<Rightarrow> real list
     \<Rightarrow> event list \<times> (exn + real list \<times> (string \<times> real) list option)" where
  "predict_probabilities rt m X =
     (case model_predict_proba m of
        None \<Rightarrow> ([], Inl ''object has no attribute predict_proba'')
      | Some proba_fn \<Rightarrow>
          ([ModelPredictProba X],
           case proba_fn X of
             Inl e \<Rightarrow> Inl e
           | Inr proba \<Rightarrow>
               (case model_classes m of
                  None \<Rightarrow> Inr (proba, None)
                | Some cls \<Rightarrow>
                    (case top_3_entries rt cls proba of
                       Inl e \<Rightarrow> Inl e
                     | Inr t \<Rightarrow> Inr (proba, Some t)))))"

text \<open>
  \<^verbatim>\<open>
  def predict(request):
      X = np.array(request.features)
      if X.ndim == 1:
          X = X.reshape(1, -1)
      expected_dim = model.n_features_in_ if hasattr(model, "n_features_in_") else None
      if expected_dim and X.shape[1] != expected_dim:
          raise HTTPException(status_code=400,
              detail=f"Expected {expected_dim} features, got {X.shape[1]}")
      if scaler is not None:
          X = scaler.transform(X)
      try:
          pred = model.predict(X)
          try:
              proba = model.predict_proba(X)[0]
              ... (the lines above)
          except Exception:
              proba_list = None
              top_3 = None
          prediction_value = pred[0] if isinstance(pred[0], (str, int)) else str(pred[0])
          return PredictionResponse(prediction=prediction_value, top_3=top_3,
                                    probabilities=proba_list)
      except Exception as e:
          raise HTTPException(status_code=500, detail=f"Prediction failed: {e}")
  \<close>
  The request body is a list of floats, so \<open>X\<close> is one row and \<open>X.shape[1]\<close> its length.
  The scaler runs outside the \<^verbatim>\<open>try\<close>: what it raises, no handler catches.
\<close>

definition predict ::
  "runtime \<Rightarrow> inference_context \<Rightarrow> real list
     \<Rightarrow> event list \<times> (http_error + prediction_response)" where
  "predict rt ctx features =
     (let m = model ctx; X = features
      in case dimension_mismatch m (length X) of
           Some expected_dim \<Rightarrow>
             ([], Inl (HTTPException 400
                    (''Expected '' @ str_int expected_dim @ '' features, got ''
                       @ str_nat (length X))))
         | None \<Rightarrow>
        (case apply_scaler ctx X of
           (ev, Inl e) \<Rightarrow> (ev, Inl (Unhandled e))
         | (ev, Inr X1) \<Rightarrow>
        (case model_predict m X1 of
           Inl e \<Rightarrow>
             (ev @ [ModelPredict X1], Inl (HTTPException 500 (''Prediction failed: '' @ e)))
         | Inr pred \<Rightarrow>
        (let (ev_proba, r) = predict_probabilities rt m X1;
             (proba_list, top3) =
               (case r of Inl e \<Rightarrow> (None, None) | Inr (proba, t) \<Rightarrow> (Some proba, t))
         in case pred of
              [] \<Rightarrow>
                (ev @ [ModelPredict X1] @ ev_proba,
                 Inl (HTTPException 500 ''Prediction failed: index 0 is out of bounds''))
            | p0 # _ \<Rightarrow>
                (ev @ [ModelPredict X1] @ ev_proba,
                 Inr \<lparr>prediction = prediction_value p0, top_3 = top3,
                      probabilities = proba_list, filename = None, signed_url = None,
                      signed_url_expires_in = None\<rparr>)))))"

subsection \<open>Feature extraction\<close>

text \<open>
  \<^verbatim>\<open>
  def extract_audio_features(y, sr):
      features = {}
      features['centroid_mean'] = librosa.feature.spectral_centroid(y=y, sr=sr)[0].mean()
      features['bandwidth_mean'] = librosa.feature.spectral_bandwidth(y=y, sr=sr)[0].mean()
      features['rolloff_mean'] = librosa.feature.spectral_rolloff(y=y, sr=sr)[0].mean()
      mfccs = librosa.feature.mfcc(y=y, sr=sr, n_mfcc=13)
      for i in range(13):
          features[f'mfcc{i+1}_mean'] = mfccs[i].mean()
      for i in [0, 2, 3, 4, 6, 7, 11]:
          features[f'mfcc{i+1}_std'] = mfccs[i].std()
      features['zcr_mean'] = librosa.feature.zero_crossing_rate(y)[0].mean()
      features['rms_mean'] = librosa.feature.rms(y=y)[0].mean()
      features['rms_std'] = librosa.feature.rms(y=y)[0].std()
      return features

  def features_dict_to_array(features, feature_names):
      return np.array([features[name] for name in feature_names])
  \<close>
  The dictionary is the list of its items in insertion order; its keys are distinct.
\<close>

definition bind_exn :: "exn + 'a \<Rightarrow> ('a \<Rightarrow> exn + 'b) \<Rightarrow> exn + 'b" where
  "bind_exn r f = (case r of Inl e \<Rightarrow> Inl e | Inr v \<Rightarrow> f v)"

definition row :: "real list list \<Rightarrow> nat \<Rightarrow> exn + real list" where
  "row a i = (if i < length a then Inr (a ! i) else Inl ''index is out of bounds'')"

definition extract_audio_features :: "librosa \<Rightarrow> buffer \<Rightarrow> int \<Rightarrow> exn + (string \<times> real) list" where
  "extract_audio_features lib y sr =
     bind_exn (spectral_centroid lib y sr) (\<lambda>c. bind_exn (row c 0) (\<lambda>c0.
     bind_exn (spectral_bandwidth lib y sr) (\<lambda>b. bind_exn (row b 0) (\<lambda>b0.
     bind_exn (spectral_rolloff lib y sr) (\<lambda>r. bind_exn (row r 0) (\<lambda>r0.
     bind_exn (mfcc lib y sr 13) (\<lambda>mfccs.
     bind_exn (if length mfccs < 13 then Inl ''index is out of bounds'' else Inr mfccs) (\<lambda>_.
     bind_exn (zero_crossing_rate lib y) (\<lambda>z. bind_exn (row z 0) (\<lambda>z0.
     bind_exn (feature_rms lib y) (\<lambda>e1. bind_exn (row e1 0) (\<lambda>e10.
     bind_exn (feature_rms lib y) (\<lambda>e2. bind_exn (row e2 0) (\<lambda>e20.
       Inr ([(''centroid_mean'', np_mean c0), (''bandwidth_mean'', np_mean b0),
             (''rolloff_mean'', np_mean r0)]
            @ map (\<lambda>i. (''mfcc'' @ str_nat (i + 1) @ ''_mean'', np_mean (mfccs ! i))) [0..<13]
            @ map (\<lambda>i. (''mfcc'' @ str_nat (i + 1) @ ''_std'', np_std (mfccs ! i)))
                [0, 2, 3, 4, 6, 7, 11]
            @ [(''zcr_mean'', np_mean z0), (''rms_mean'', np_mean e10),
               (''rms_std'', np_std e20)])))))))))))))))"

definition key_error :: "string \<Rightarrow> exn" where
  "key_error name = [char_of (39 :: nat)] @ name @ [char_of (39 :: nat)]"

definition features_dict_to_array :: "(string \<times> real) list \<Rightarrow> string list \<Rightarrow> exn + real list" where
  "features_dict_to_array features names =
     (case filter (\<lambda>name. map_of features name = None) names of
        [] \<Rightarrow> Inr (map (\<lambda>name. the (map_of features name)) names)
      | name # _ \<Rightarrow> Inl (key_error name))"

subsection \<open>Audio prediction\<close>

text \<open>
  \<^verbatim>\<open>
  try:
      pred = model.predict(X)
      proba = model.predict_proba(X)[0]
      ... (the shared lines)
      prediction_value = pred[0] if isinstance(pred[0], (str, int)) else str(pred[0])
      storage_filename = f"{datetime.utcnow().strftime('%Y%m%d_%H%M%S')}_{prediction_value}_{top_3[0]['confidence']:.2f}{file_ext}"
      signed_url = None
      signed_expires = 900
      if SAVE_UPLOADS and supabase:
          try:
              task = asyncio.create_task(save_prediction_to_supabase(...))
              task.add_done_callback(_log_bg_result)
              try:
                  signed = supabase.storage.from_(...).create_signed_url(storage_filename,
                                                                         signed_expires)
                  ... signed_url = the URL in the answer
              except Exception:
                  signed_url = None
          except Exception as e:
              print(...)
      return PredictionResponse(prediction=prediction_value, top_3=top_3,
          probabilities=proba_list,
          filename=storage_filename if SAVE_UPLOADS and supabase else None,
          signed_url=signed_url,
          signed_url_expires_in=signed_expires if signed_url else None)
  except Exception as e:
      raise HTTPException(status_code=500, detail=f"Prediction failed: {e}")
  \<close>
  Here nothing catches what the shared lines raise before the outer handler does.
\<close>

record upload_file =
  upload_filename :: string
  upload_content :: string

definition prediction_failed :: "exn \<Rightarrow> http_error + prediction_response" where
  "prediction_failed e = Inl (HTTPException 500 (''Prediction failed: '' @ e))"

definition audio_prediction ::
  "runtime \<Rightarrow> inference_context \<Rightarrow> string \<Rightarrow> real list
     \<Rightarrow> event list \<times> (http_error + prediction_response)" where
  "audio_prediction rt ctx file_ext X =
     (let m = model ctx
      in case model_predict m X of
           Inl e \<Rightarrow> ([ModelPredict X], prediction_failed e)
         | Inr pred \<Rightarrow>
        (case predict_probabilities rt m X of
           (ev, Inl e) \<Rightarrow> (ModelPredict X # ev, prediction_failed e)
         | (ev, Inr (proba_list, top3)) \<Rightarrow>
        (case pred of
           [] \<Rightarrow> (ModelPredict X # ev, prediction_failed ''index 0 is out of bounds'')
         | p0 # _ \<Rightarrow>
        (case top3 of
           None \<Rightarrow> (ModelPredict X # ev, prediction_failed ''NoneType object is not subscriptable'')
         | Some [] \<Rightarrow> (ModelPredict X # ev, prediction_failed ''list index out of range'')
         | Some ((species, confidence) # _) \<Rightarrow>
        (let value = prediction_value p0;
             storage_filename = utcnow_strftime rt @ ''_'' @ str_pyval value @ ''_''
                                  @ format_2f rt confidence @ file_ext
         in case (if SAVE_UPLOADS ctx then supabase ctx else None) of
              None \<Rightarrow>
                (ModelPredict X # ev,
                 Inr \<lparr>prediction = value, top_3 = top3, probabilities = Some proba_list,
                      filename = None, signed_url = None, signed_url_expires_in = None\<rparr>)
            | Some client \<Rightarrow>
                (let url = (case create_signed_url client storage_filename 900 of
                              Inl e \<Rightarrow> None
                            | Inr u \<Rightarrow> u)
                 in (ModelPredict X # ev
                       @ [ScheduleSave storage_filename, CreateSignedUrl storage_filename],
                     Inr \<lparr>prediction = value, top_3 = top3, probabilities = Some proba_list,
                          filename = Some storage_filename, signed_url = url,
                          signed_url_expires_in =
                            (case url of
                               None \<Rightarrow> None
                             | Some u \<Rightarrow> if u \<noteq> [] then Some 900 else None)\<rparr>)))))))"

text \<open>
  \<^verbatim>\<open>
  async def predict_from_audio(file):
      allowed_extensions = {'.wav', '.mp3', '.flac', '.ogg', '.m4a', '.aac', '.wma'}
      file_ext = os.path.splitext(file.filename)[1].lower()
      if file_ext not in allowed_extensions:
          raise HTTPException(status_code=400,
              detail=f"Unsupported audio format: {file_ext}. Supported formats: {', '.join(allowed_extensions)}")
      try:
          audio_bytes = await file.read()
          try:
              y, sr = librosa.load(io.BytesIO(audio_bytes), sr=None, mono=False)
          except Exception as e:
              raise HTTPException(status_code=400, detail=f"Failed to load audio file: {e}")
          try:
              y_normalized, sr_normalized = normalize_audio(y, sr, apply_preemphasis=True)
          except Exception as e:
              raise HTTPException(status_code=500, detail=f"Audio normalization failed: {e}")
          try:
              features_dict = extract_audio_features(y_normalized, sr_normalized)
          except Exception as e:
              raise HTTPException(status_code=500, detail=f"Feature extraction failed: {e}")
          if feature_names is None:
              raise HTTPException(status_code=500, detail="Feature names not loaded")
          try:
              feature_array = features_dict_to_array(features_dict, feature_names)
              X = feature_array.reshape(1, -1)
          except Exception as e:
              raise HTTPException(status_code=500, detail=f"Feature ordering failed: {e}")
          expected_dim = model.n_features_in_ if hasattr(model, "n_features_in_") else None
          if expected_dim and X.shape[1] != expected_dim:
              raise HTTPException(status_code=500,
                  detail=f"Feature extraction produced {X.shape[1]} features, expected {expected_dim}")
          if scaler is not None:
              X = scaler.transform(X)
          ... (the prediction block above)
      except HTTPException:
          raise
      except Exception as e:
          raise HTTPException(status_code=500, detail=f"Unexpected error: {e}")
  \<close>
  The set of allowed extensions is the list of its members; the order in which the error
  message lists them is the runtime's.
\<close>

definition allowed_extensions :: "string list" where
  "allowed_extensions = [''.wav'', ''.mp3'', ''.flac'', ''.ogg'', ''.m4a'', ''.aac'', ''.wma'']"

definition predict_from_audio ::
  "runtime \<Rightarrow> librosa \<Rightarrow> inference_context \<Rightarrow> upload_file
     \<Rightarrow> event list \<times> (http_error + prediction_response)" where
  "predict_from_audio rt lib ctx file =
     (let file_ext = lower (snd (splitext (upload_filename file)))
      in if file_ext \<notin> set allowed_extensions then
           ([], Inl (HTTPException 400
                  (''Unsupported audio format: '' @ file_ext @ ''. Supported formats: ''
                     @ join '', '' (set_iteration rt allowed_extensions))))
         else
        (case load lib (upload_content file) of
           Inl e \<Rightarrow>
             ([FileRead, LibrosaLoad],
              Inl (HTTPException 400 (''Failed to load audio file: '' @ e)))
         | Inr (y, sr) \<Rightarrow>
        (case normalize_audio rt lib y sr True of
           Inl e \<Rightarrow>
             ([FileRead, LibrosaLoad, NormalizeAudio],
              Inl (HTTPException 500 (''Audio normalization failed: '' @ e)))
         | Inr (y_normalized, sr_normalized) \<Rightarrow>
        (case extract_audio_features lib y_normalized sr_normalized of
           Inl e \<Rightarrow>
             ([FileRead, LibrosaLoad, NormalizeAudio, ExtractFeatures],
              Inl (HTTPException 500 (''Feature extraction failed: '' @ e)))
         | Inr features_dict \<Rightarrow>
        (case feature_names ctx of
           None \<Rightarrow>
             ([FileRead, LibrosaLoad, NormalizeAudio, ExtractFeatures],
              Inl (HTTPException 500 ''Feature names not loaded''))
         | Some names \<Rightarrow>
        (case features_dict_to_array features_dict names of
           Inl e \<Rightarrow>
             ([FileRead, LibrosaLoad, NormalizeAudio, ExtractFeatures],
              Inl (HTTPException 500 (''Feature ordering failed: '' @ e)))
         | Inr X \<Rightarrow>
        (case dimension_mismatch (model ctx) (length X) of
           Some expected_dim \<Rightarrow>
             ([FileRead, LibrosaLoad, NormalizeAudio, ExtractFeatures],
              Inl (HTTPException 500
                     (''Feature extraction produced '' @ str_nat (length X)
                        @ '' features, expected '' @ str_int expected_dim)))
         | None \<Rightarrow>
        (case apply_scaler ctx X of
           (ev, Inl e) \<Rightarrow>
             ([FileRead, LibrosaLoad, NormalizeAudio, ExtractFeatures] @ ev,
              Inl (HTTPException 500 (''Unexpected error: '' @ e)))
         | (ev, Inr X1) \<Rightarrow>
             (let (ev_pred, r) = audio_prediction rt ctx file_ext X1
              in ([FileRead, LibrosaLoad, NormalizeAudio, ExtractFeatures] @ ev @ ev_pred,
                  r))))))))))"

subsection \<open>Persistence\<close>

text \<open>
  \<^verbatim>\<open>
  def _guess_content_type_from_ext(filename):
      ext = os.path.splitext(filename)[1].lower().lstrip('.')
      content_type_map = {"mp3": "audio/mpeg", "mpeg": "audio/mpeg", "wav": "audio/wav",
          "flac": "audio/flac", "ogg": "audio/ogg", "m4a": "audio/mp4", "aac": "audio/aac",
          "wma": "audio/x-ms-wma"}
      return content_type_map.get(ext, f"audio/{ext}" if ext else "application/octet-stream")
  \<close>
\<close>

definition content_type_map :: "(string \<times> string) list" where
  "content_type_map =
     [(''mp3'', ''audio/mpeg''), (''mpeg'', ''audio/mpeg''), (''wav'', ''audio/wav''),
      (''flac'', ''audio/flac''), (''ogg'', ''audio/ogg''), (''m4a'', ''audio/mp4''),
      (''aac'', ''audio/aac''), (''wma'', ''audio/x-ms-wma'')]"

definition guess_content_type_from_ext :: "string \<Rightarrow> string" where
  "guess_content_type_from_ext fname =
     (let ext = dropWhile (\<lambda>c. c = CHR ''.'') (lower (snd (splitext fname)))
      in case map_of content_type_map ext of
           Some t \<Rightarrow> t
         | None \<Rightarrow> if ext \<noteq> [] then ''audio/'' @ ext else ''application/octet-stream'')"

text \<open>
  \<^verbatim>\<open>
  async def save_prediction_to_supabase(audio_bytes, filename, prediction, top_3,
                                        probabilities, storage_filename=None):
      global supabase
      if not supabase:
          return
      bucket_name = os.getenv("SUPABASE_BUCKET", "frog-user-recordings")
      timestamp = datetime.utcnow().isoformat()
      file_ext = os.path.splitext(filename)[1]
      safe_ext = (file_ext[1:] or "mpeg").lower()
      content_type = _guess_content_type_from_ext(filename)
      if not storage_filename:
          storage_filename = f"{datetime.utcnow().strftime('%Y%m%d_%H%M%S')}_{prediction}_{top_3[0]['confidence']:.2f}{file_ext}"
      try:
          upload_resp = supabase.storage.from_(bucket_name).upload(
              path=storage_filename, file=audio_bytes,
              file_options={"content_type": content_type})
          print(f"Supabase storage upload response: {upload_resp}")
      except Exception as e:
          # Surface storage errors up to caller for logging
          raise RuntimeError(f"Storage upload failed: {e}")
      metadata = {"filename": storage_filename, "original_filename": filename,
          "prediction": prediction, "top_3_predictions": top_3,
          "all_probabilities": probabilities, "timestamp": timestamp}
      try:
          db_resp = supabase.table("predictions").insert(metadata).execute()
          print(f"Supabase DB insert response: {db_resp}")
      except Exception as e:
          print(f"DB insert failed: {e}. Ensure ... Metadata: {metadata}")

  def _log_bg_result(task):
      try:
          task.result()
          print("Background Supabase save completed")
      except Exception as e:
          print(f"Background Supabase save failed: {e}")
  \<close>
  Printed lines are given without their leading pictograph, and the line of a failed insert
  up to its first full stop. \<open>StorageUpload\<close> and \<open>TableInsert\<close> mark the two attempts.
\<close>

definition generated_storage_filename ::
  "runtime \<Rightarrow> pyval \<Rightarrow> (string \<times> real) list option \<Rightarrow> string \<Rightarrow> exn + string" where
  "generated_storage_filename rt pred top3 file_ext =
     (case top3 of
        None \<Rightarrow> Inl ''NoneType object is not subscriptable''
      | Some [] \<Rightarrow> Inl ''list index out of range''
      | Some ((species, confidence) # _) \<Rightarrow>
          Inr (utcnow_strftime rt @ ''_'' @ str_pyval pred @ ''_'' @ format_2f rt confidence
                 @ file_ext))"

definition save_prediction_to_supabase ::
  "runtime \<Rightarrow> storage_client option \<Rightarrow> string \<Rightarrow> string \<Rightarrow> pyval
     \<Rightarrow> (string \<times> real) list option \<Rightarrow> real list option \<Rightarrow> string option
     \<Rightarrow> event list \<times> (exn + unit)" where
  "save_prediction_to_supabase rt sb audio_bytes fname pred top3 probs storage_filename =
     (case sb of
        None \<Rightarrow> ([], Inr ())
      | Some client \<Rightarrow>
          (let timestamp = utcnow_isoformat rt;
               file_ext = snd (splitext fname);
               content_type = guess_content_type_from_ext fname
           in case (case storage_filename of
                      None \<Rightarrow> generated_storage_filename rt pred top3 file_ext
                    | Some n \<Rightarrow> if n \<noteq> [] then Inr n
                               else generated_storage_filename rt pred top3 file_ext) of
                Inl e \<Rightarrow> ([], Inl e)
              | Inr name \<Rightarrow>
             (case storage_upload client name audio_bytes content_type of
                Inl e \<Rightarrow> ([StorageUpload name], Inl (''Storage upload failed: '' @ e))
              | Inr upload_resp \<Rightarrow>
                  (let md = \<lparr>md_filename = name, md_original_filename = fname,
                              md_prediction = pred, md_top_3_predictions = top3,
                              md_all_probabilities = probs, md_timestamp = timestamp\<rparr>
                   in ([StorageUpload name,
                        Print (''Supabase storage upload response: '' @ upload_resp),
                        TableInsert name,
                        (case table_insert client md of
                           Inl e \<Rightarrow> Print (''DB insert failed: '' @ e)
                         | Inr db_resp \<Rightarrow> Print (''Supabase DB insert response: '' @ db_resp))],
                       Inr ())))))"

definition log_bg_result :: "exn + unit \<Rightarrow> event list" where
  "log_bg_result r =
     (case r of
        Inr _ \<Rightarrow> [Print ''Background Supabase save completed'']
      | Inl e \<Rightarrow> [Print (''Background Supabase save failed: '' @ e)])"

text \<open>
  The task that \<open>predict_from_audio\<close> schedules, with its done-callback: the coroutine
  above on the request's own values, then \<open>log_bg_result\<close> on what it returned or raised.
\<close>

definition background_save ::
  "runtime \<Rightarrow> inference_context \<Rightarrow> upload_file \<Rightarrow> prediction_response \<Rightarrow> event list" where
  "background_save rt ctx file resp =
     (let (ev, r) = save_prediction_to_supabase rt (supabase ctx) (upload_content file)
                      (upload_filename file) (prediction resp) (top_3 resp)
                      (probabilities resp) (filename resp)
      in ev @ log_bg_result r)"

subsection \<open>Startup\<close>

text \<open>
  \<^verbatim>\<open>
  def load_artifacts():
      global model, scaler, feature_names, supabase
      try:
          model = joblib.load(model_path)
      except Exception as e:
          raise RuntimeError(f"Failed to load model from {model_path}: {e}")
      try:
          scaler = joblib.load(scaler_path)
      except Exception as e:
          scaler = None
      if os.path.exists(features_path):
          with open(features_path, "r") as f:
              feature_names = json.load(f)
      else:
          feature_names = None
      if SAVE_UPLOADS:
          supabase_url = os.getenv("SUPABASE_URL")
          supabase_key = os.getenv("SUPABASE_KEY")
          if supabase_url and supabase_key:
              try:
                  supabase = create_client(supabase_url, supabase_key)
              except Exception as e:
                  print(...)
          else:
              print(...)
  \<close>
  The files and the environment are the parameters: what loading the model and the scaler
  gives, what reading the feature-order file gives when the file exists, and what
  creating the storage client gives when both credentials are set. The warnings that
  startup prints are left out.
\<close>

record artifacts =
  model_path :: string
  model_file :: "exn + model"
  scaler_file :: "exn + scaler"
  features_file :: "(exn + string list) option"
  save_uploads_flag :: bool
  storage_credentials :: "(exn + storage_client) option"

definition load_artifacts :: "artifacts \<Rightarrow> exn + inference_context" where
  "load_artifacts a =
     (case model_file a of
        Inl e \<Rightarrow> Inl (''Failed to load model from '' @ model_path a @ '': '' @ e)
      | Inr m \<Rightarrow>
          (let sc = (case scaler_file a of Inl e \<Rightarrow> None | Inr t \<Rightarrow> Some t)
           in case (case features_file a of
                      None \<Rightarrow> Inr None
                    | Some (Inl e) \<Rightarrow> Inl e
                    | Some (Inr names) \<Rightarrow> Inr (Some names)) of
                Inl e \<Rightarrow> Inl e
              | Inr names \<Rightarrow>
                  Inr \<lparr>model = m, scaler = sc, feature_names = names,
                       supabase =
                         (if save_uploads_flag a
                          then (case storage_credentials a of
                                  Some (Inr client) \<Rightarrow> Some client
                                | _ \<Rightarrow> None)
                          else None),
                       SAVE_UPLOADS = save_uploads_flag a\<rparr>))"

section \<open>Example collaborators\<close>

text \<open>
  Concrete collaborators on which the definitions above are run. The library decodes every
  upload to three seconds of silence at 16 kHz, trims everything away, and computes
  all-zero feature matrices. The runtime formats a non-negative float with two decimals
  (rounding half up, which is Python's result at the values used here), iterates a set
  of strings in the order written, computes the RMS without rounding, and sorts indices
  with a stable sort, one of the results that \<^verbatim>\<open>np.argsort\<close> may return.
\<close>

definition silent_lib :: librosa where
  "silent_lib = \<lparr>
     effects_trim = (\<lambda>y top_db. Inr []),
     resample = (\<lambda>y a b. Inr (replicate (nat ((int (length y) * b) div a)) 0)),
     effects_preemphasis = (\<lambda>y c. Inr (map (\<lambda>x. x - c * x) y)),
     load = (\<lambda>bytes. Inr (Arr1 (replicate 48000 0), 16000)),
     spectral_centroid = (\<lambda>y sr. Inr [[0]]),
     spectral_bandwidth = (\<lambda>y sr. Inr [[0]]),
     spectral_rolloff = (\<lambda>y sr. Inr [[0]]),
     mfcc = (\<lambda>y sr n. Inr (map (\<lambda>i. [0]) [0..<n])),
     zero_crossing_rate = (\<lambda>y. Inr [[0]]),
     feature_rms = (\<lambda>y. Inr [[0]]) \<rparr>"

definition example_format_2f :: "real \<Rightarrow> string" where
  "example_format_2f x =
     (let c = nat \<lfloor>x * 100 + 1 / 2\<rfloor>
      in str_nat (c div 100) @ ''.'' @ [digit_char (c div 10 mod 10), digit_char (c mod 10)])"

definition exact_sqrt_mean_square :: "real list \<Rightarrow> real option" where
  "exact_sqrt_mean_square w = Some (sqrt (np_mean (map (\<lambda>x. x ^ 2) w)))"

definition stable_argsort :: "real list \<Rightarrow> nat list" where
  "stable_argsort p = sort_key (\<lambda>i. p ! i) [0..<length p]"

definition example_runtime :: runtime where
  "example_runtime = \<lparr>
     utcnow_strftime = ''20240101_120000'',
     utcnow_isoformat = ''2024-01-01T12:00:00'',
     format_2f = example_format_2f,
     set_iteration = (\<lambda>xs. xs),
     np_sqrt_mean_square = exact_sqrt_mean_square,
     np_argsort = stable_argsort \<rparr>"

text \<open>
  The feature order that the docstring of \<^verbatim>\<open>PredictionRequest\<close> lists, a classifier
  over three classes that declares 26 input features, and a context without scaler and
  without storage.
\<close>

definition canonical_feature_names :: "string list" where
  "canonical_feature_names =
     [''centroid_mean'', ''bandwidth_mean'', ''rolloff_mean'',
      ''mfcc1_mean'', ''mfcc2_mean'', ''mfcc3_mean'', ''mfcc4_mean'', ''mfcc5_mean'',
      ''mfcc6_mean'', ''mfcc7_mean'', ''mfcc8_mean'', ''mfcc9_mean'', ''mfcc10_mean'',
      ''mfcc11_mean'', ''mfcc12_mean'', ''mfcc13_mean'',
      ''mfcc1_std'', ''mfcc3_std'', ''mfcc4_std'', ''mfcc5_std'', ''mfcc7_std'',
      ''mfcc8_std'', ''mfcc12_std'',
      ''zcr_mean'', ''rms_mean'', ''rms_std'']"

definition example_model :: model where
  "example_model = \<lparr>
     model_n_features_in = Some 26,
     model_classes = Some [''Bullfrog'', ''Green Treefrog'', ''Spring Peeper''],
     model_predict = (\<lambda>X. Inr [PyStr ''Bullfrog'']),
     model_predict_proba = Some (\<lambda>X. Inr [1 / 2, 1 / 4, 1 / 4]) \<rparr>"

definition example_context :: inference_context where
  "example_context = \<lparr>
     model = example_model, scaler = None, feature_names = Some canonical_feature_names,
     supabase = None, SAVE_UPLOADS = False \<rparr>"

definition example_upload :: upload_file where
  "example_upload = \<lparr> upload_filename = ''pond/Frog.WAV'', upload_content = ''RIFF'' \<rparr>"

text \<open>Storage clients: one that works, one whose upload fails, one whose insert fails.\<close>

definition working_client :: storage_client where
  "working_client = \<lparr>
     storage_upload = (\<lambda>path bytes content_type. Inr ''ok''),
     table_insert = (\<lambda>md. Inr ''ok''),
     create_signed_url = (\<lambda>path expires. Inr (Some (''https://storage/'' @ path))) \<rparr>"

definition failing_upload_client :: storage_client where
  "failing_upload_client =
     working_client \<lparr> storage_upload := (\<lambda>path bytes content_type. Inl ''bucket not found'') \<rparr>"

definition failing_insert_client :: storage_client where
  "failing_insert_client =
     working_client \<lparr> table_insert := (\<lambda>md. Inl ''relation does not exist'') \<rparr>"

text \<open>The same context with a classifier that has no \<^verbatim>\<open>predict_proba\<close>.\<close>

definition no_proba_context :: inference_context where
  "no_proba_context = example_context \<lparr> model := example_model \<lparr> model_predict_proba := None \<rparr> \<rparr>"

text \<open>
  The example context with storage switched on, the response of the example request under
  it, and startup files of which the scaler and the feature-order file are missing.
\<close>

definition persisting_context :: "storage_client \<Rightarrow> inference_context" where
  "persisting_context client = example_context \<lparr> supabase := Some client, SAVE_UPLOADS := True \<rparr>"

definition example_response :: "string option \<Rightarrow> prediction_response" where
  "example_response url =
     \<lparr>prediction = PyStr ''Bullfrog'',
      top_3 = Some [(''Bullfrog'', 1 / 2), (''Spring Peeper'', 1 / 4), (''Green Treefrog'', 1 / 4)],
      probabilities = Some [1 / 2, 1 / 4, 1 / 4],
      filename = Some ''20240101_120000_Bullfrog_0.50.wav'',
      signed_url = url,
      signed_url_expires_in = (case url of None \<Rightarrow> None | Some u \<Rightarrow> Some 900)\<rparr>"

definition missing_files :: artifacts where
  "missing_files = \<lparr>
     model_path = ''rf_calibrated_model.joblib'',
     model_file = Inr example_model,
     scaler_file = Inl ''No such file or directory'',
     features_file = None,
     save_uploads_flag = False,
     storage_credentials = None \<rparr>"

section \<open>Predicates on effects\<close>

definition is_schedule_save :: "event \<Rightarrow> bool" where
  "is_schedule_save e = (case e of ScheduleSave _ \<Rightarrow> True | _ \<Rightarrow> False)"

definition is_storage_upload :: "event \<Rightarrow> bool" where
  "is_storage_upload e = (case e of StorageUpload _ \<Rightarrow> True | _ \<Rightarrow> False)"

definition is_table_insert :: "event \<Rightarrow> bool" where
  "is_table_insert e = (case e of TableInsert _ \<Rightarrow> True | _ \<Rightarrow> False)"

definition is_scaler_transform :: "event \<Rightarrow> bool" where
  "is_scaler_transform e = (case e of ScalerTransform _ \<Rightarrow> True | _ \<Rightarrow> False)"

text \<open>A request's outcome with the scaler's calls taken out of its effects.\<close>

definition without_scaling :: "event list \<times> 'a \<Rightarrow> event list \<times> 'a" where
  "without_scaling r = (filter (\<lambda>e. \<not> is_scaler_transform e) (fst r), snd r)"

section \<open>Properties of peak normalisation\<close>

lemma max_abs_ge: "x \<in> set y \<Longrightarrow> \<bar>x\<bar> \<le> max_abs y"
  by (auto simp: max_abs_def intro!: Max_ge)

lemma max_abs_nonneg: "0 \<le> max_abs y"
proof (cases y)
  case Nil
  then show ?thesis by (simp add: max_abs_def)
next
  case (Cons a as)
  have "0 \<le> \<bar>a\<bar>" by simp
  also have "\<bar>a\<bar> \<le> max_abs y" using Cons by (intro max_abs_ge) simp
  finally show ?thesis .
qed

lemma max_abs_zero_iff: "max_abs y = 0 \<longleftrightarrow> (\<forall>x \<in> set y. x = 0)"
proof
  assume z: "max_abs y = 0"
  show "\<forall>x \<in> set y. x = 0"
  proof
    fix x assume "x \<in> set y"
    then have "\<bar>x\<bar> \<le> 0" using max_abs_ge [of x y] z by simp
    then show "x = 0" by simp
  qed
next
  assume a: "\<forall>x \<in> set y. x = 0"
  show "max_abs y = 0"
  proof (cases "y = []")
    case True
    then show ?thesis by (simp add: max_abs_def)
  next
    case False
    then have "set (map abs y) = {0}" using a by (cases y) auto
    then show ?thesis using False by (simp add: max_abs_def)
  qed
qed

lemma peak_normalize_bound:
  assumes "0 \<le> peak" and "x \<in> set (peak_normalize y peak)"
  shows "\<bar>x\<bar> \<le> peak"
proof (cases "max_abs y > 0")
  case True
  then obtain v where v: "v \<in> set y" and x: "x = (v / max_abs y) * peak"
    using assms(2) by (auto simp: peak_normalize_def Let_def)
  have "\<bar>v\<bar> / max_abs y \<le> 1" using max_abs_ge [OF v] True by simp
  then have "\<bar>v\<bar> / max_abs y * peak \<le> 1 * peak"
    using assms(1) by (intro mult_right_mono)
  moreover have "\<bar>x\<bar> = \<bar>v\<bar> / max_abs y * peak"
    using True assms(1) by (simp add: x abs_mult)
  ultimately show ?thesis by simp
next
  case False
  then have z: "max_abs y = 0" using max_abs_nonneg [of y] by simp
  then have "peak_normalize y peak = y" by (simp add: peak_normalize_def)
  then have "x \<in> set y" using assms(2) by simp
  then have "x = 0" using z by (simp add: max_abs_zero_iff)
  then show ?thesis using assms(1) by simp
qed

text \<open>
  Claim C6. For a non-negative peak level (the configured one is 0.98) no sample of the
  peak-normalised buffer exceeds the peak level in absolute value, so neither does the
  maximum absolute amplitude; a buffer whose maximum absolute amplitude is zero, which is
  the same as an all-zero (or empty) buffer, is returned unchanged.
\<close>

theorem peak_normalize_bounded_and_silent_unchanged:
  "(0 \<le> peak \<longrightarrow> (\<forall>x \<in> set (peak_normalize y peak). \<bar>x\<bar> \<le> peak)
                  \<and> max_abs (peak_normalize y peak) \<le> peak)
   \<and> (\<forall>x \<in> set (peak_normalize y PEAK_LEVEL). \<bar>x\<bar> \<le> PEAK_LEVEL)
   \<and> (max_abs y = 0 \<longrightarrow> peak_normalize y peak = y)
   \<and> ((\<forall>x \<in> set y. x = 0) \<longrightarrow> peak_normalize y peak = y)"
proof -
  have b: "\<forall>x \<in> set (peak_normalize y p). \<bar>x\<bar> \<le> p" if "0 \<le> p" for p
    using that peak_normalize_bound by blast
  have m: "max_abs (peak_normalize y p) \<le> p" if p: "0 \<le> p" for p
  proof (cases "peak_normalize y p = []")
    case True
    then show ?thesis using p by (simp add: max_abs_def)
  next
    case False
    then have "Max (set (map abs (peak_normalize y p))) \<le> p"
      using b [OF p] by (subst Max_le_iff) auto
    then show ?thesis using False by (simp add: max_abs_def)
  qed
  have u: "peak_normalize y peak = y" if "max_abs y = 0"
    using that by (simp add: peak_normalize_def)
  have "(0::real) \<le> PEAK_LEVEL" by (simp add: PEAK_LEVEL_def)
  then show ?thesis using b m u by (simp add: max_abs_zero_iff)
qed

theorem peak_normalize_bounded_and_silent_unchanged_witness:
  "peak_normalize [1, -2] PEAK_LEVEL = [49 / 100, - (98 / 100)]
   \<and> max_abs (peak_normalize [1, -2] PEAK_LEVEL) \<le> PEAK_LEVEL
   \<and> max_abs [0, 0] = 0 \<and> peak_normalize [0, 0] PEAK_LEVEL = [0, 0]"
proof -
  have p: "(0::real) \<le> PEAK_LEVEL" by (simp add: PEAK_LEVEL_def)
  have z: "max_abs [0, 0] = 0" by (simp add: max_abs_def)
  have e: "peak_normalize [1, -2] PEAK_LEVEL = [49 / 100, - (98 / 100)]"
    by (simp add: peak_normalize_def max_abs_def PEAK_LEVEL_def)
  show ?thesis
    using peak_normalize_bounded_and_silent_unchanged [of PEAK_LEVEL "[1, -2]"]
      peak_normalize_bounded_and_silent_unchanged [of PEAK_LEVEL "[0, 0]"] p z e
    by simp
qed

section \<open>Properties of window selection\<close>






lemma neg1_less_sqrt: "0 \<le> x \<Longrightarrow> - 1 < sqrt x"
  using real_sqrt_ge_zero [of x] by linarith

text \<open>
  Two windows of equal RMS, at offsets 1 and 2: the earlier one is returned.
\<close>

lemma find_best_10s_window_tie_example:
  "find_best_10s_window example_runtime [0, 3, 4, 3, 4, 0] 1 2 = Inr [3, 4]"
  by (simp add: find_best_10s_window_def py_int_def window_starts_def py_range0_def upt_rec
      window_step_def window_at_def py_slice_def rms_def np_mean_def Let_def neg1_less_sqrt
      example_runtime_def exact_sqrt_mean_square_def)

text \<open>
  Windows whose computed RMS rounds to one and the same float: the first one is returned,
  whatever the exact values are.
\<close>

lemma find_best_10s_window_equal_rms_keeps_first:
  assumes "\<And>w. np_sqrt_mean_square rt w = Some c" and "0 \<le> c"
  shows "find_best_10s_window rt [1, 1 / 10 ^ 9, 1, 2 / 10 ^ 9] 1 2 = Inr [1, 1 / 10 ^ 9]"
  using assms
  by (simp add: find_best_10s_window_def py_int_def window_starts_def py_range0_def upt_rec
      window_step_def window_at_def py_slice_def rms_def Let_def)



section \<open>Properties of the normaliser\<close>

lemma peak_normalize_silent: "peak_normalize (replicate n 0) peak = replicate n 0"
proof -
  have "max_abs (replicate n 0) = 0" by (simp add: max_abs_zero_iff)
  then show ?thesis by (simp add: peak_normalize_def)
qed

lemma standardize_duration_silent:
  assumes "0 \<le> py_int (target_seconds * real_of_int sr)"
  shows "standardize_duration (replicate m 0) sr target_seconds
         = replicate (nat (py_int (target_seconds * real_of_int sr))) 0"
proof -
  define t where "t = py_int (target_seconds * real_of_int sr)"
  have t0: "0 \<le> t" using assms by (simp add: t_def)
  consider "int m > t" | "int m < t" | "int m = t" by linarith
  then show ?thesis
  proof cases
    case 1
    then have "min (nat t) m = nat t" by linarith
    then show ?thesis using 1 t0
      by (simp add: standardize_duration_def t_def [symmetric] py_slice_def Let_def min_def)
  next
    case 2
    then have "m + nat (t - int m) = nat t" by linarith
    then show ?thesis using 2
      by (simp add: standardize_duration_def t_def [symmetric] Let_def replicate_add [symmetric])
  next
    case 3
    then have "nat t = m" by linarith
    then show ?thesis using 3
      by (simp add: standardize_duration_def t_def [symmetric] Let_def)
  qed
qed

lemma trim_silence_silent:
  assumes "effects_trim lib (replicate n 0) top_db = Inr (take b (drop a (replicate n 0)))"
  shows "\<exists>m \<le> n. trim_silence lib (replicate n 0) top_db = Inr (replicate m 0)"
proof -
  define k where "k = min b (n - a)"
  have e: "effects_trim lib (replicate n 0) top_db = Inr (replicate k 0)"
    using assms by (simp add: k_def)
  have kn: "k \<le> n" by (simp add: k_def)
  show ?thesis
  proof (cases "k = 0")
    case True
    then have "trim_silence lib (replicate n 0) top_db = Inr (replicate n 0)"
      using e by (simp add: trim_silence_def)
    then show ?thesis by blast
  next
    case False
    then have "trim_silence lib (replicate n 0) top_db = Inr (replicate k 0)"
      using e by (simp add: trim_silence_def)
    then show ?thesis using kn by blast
  qed
qed

lemma normalize_audio_silence:
  assumes short: "int n \<le> py_int (TARGET_DURATION * real_of_int sr)"
    and sr: "sr \<noteq> TARGET_SR"
    and trim: "\<exists>a b. effects_trim lib (replicate n 0) 30 = Inr (take b (drop a (replicate n 0)))"
    and resamp: "\<forall>m. \<exists>m'. resample lib (replicate m 0) sr TARGET_SR = Inr (replicate m' 0)"
    and preemph: "\<forall>m. effects_preemphasis lib (replicate m 0) PRE_EMPHASIS_COEF
                       = Inr (replicate m 0)"
  shows "normalize_audio rt lib (Arr1 (replicate n 0)) sr True = Inr (replicate 220500 0, 22050)"
proof -
  obtain m where m: "m \<le> n"
    and t: "trim_silence lib (replicate n 0) 30 = Inr (replicate m 0)"
    using trim trim_silence_silent by blast
  have w: "find_best_10s_window rt (replicate m 0) sr TARGET_DURATION = Inr (replicate m 0)"
    using m short by (simp add: find_best_10s_window_def)
  obtain m' where r: "resample lib (replicate m 0) sr TARGET_SR = Inr (replicate m' 0)"
    using resamp by blast
  have len: "py_int (TARGET_DURATION * real_of_int TARGET_SR) = 220500"
    by (simp add: TARGET_DURATION_def TARGET_SR_def py_int_def)
  have s: "standardize_duration (replicate m' 0) TARGET_SR TARGET_DURATION = replicate 220500 0"
    using standardize_duration_silent [of TARGET_DURATION TARGET_SR m'] by (simp add: len)
  have p: "effects_preemphasis lib (replicate 220500 0) PRE_EMPHASIS_COEF = Inr (replicate 220500 0)"
    using preemph by blast
  show ?thesis
    using t w r s p sr
    by (simp add: normalize_audio_def peak_normalize_silent TARGET_SR_def)
qed

text \<open>
  Claim C5. For a silent mono buffer of 3 seconds at 16 kHz the normaliser returns 10 x
  22050 = 220500 zero samples at sample rate 22050. The library's part is assumed as
  follows: on this buffer the trim returns a contiguous part of its input (possibly empty,
  which brings the fallback to the untrimmed buffer), resampling a silent buffer gives a
  silent buffer of some length, and pre-emphasis of a silent buffer gives it back.
\<close>

theorem normalize_audio_silent_3s_16k:
  assumes trim: "\<exists>a b. effects_trim lib (replicate 48000 0) 30
                        = Inr (take b (drop a (replicate 48000 0)))"
    and resamp: "\<forall>m. \<exists>m'. resample lib (replicate m 0) 16000 TARGET_SR = Inr (replicate m' 0)"
    and preemph: "\<forall>m. effects_preemphasis lib (replicate m 0) PRE_EMPHASIS_COEF
                       = Inr (replicate m 0)"
  shows "normalize_audio rt lib (Arr1 (replicate (3 * 16000) 0)) 16000 True
         = Inr (replicate (10 * 22050) 0, 22050)"
proof -
  have "int 48000 \<le> py_int (TARGET_DURATION * real_of_int 16000)"
    by (simp add: TARGET_DURATION_def py_int_def)
  moreover have "(16000::int) \<noteq> TARGET_SR" by (simp add: TARGET_SR_def)
  ultimately show ?thesis
    using normalize_audio_silence [of 48000 16000 lib rt] trim resamp preemph by simp
qed

theorem normalize_audio_silent_3s_16k_witness:
  "normalize_audio example_runtime silent_lib (Arr1 (replicate (3 * 16000) 0)) 16000 True
         = Inr (replicate (10 * 22050) 0, 22050)"
proof -
  have 1: "\<exists>a b. effects_trim silent_lib (replicate 48000 0) 30
                        = Inr (take b (drop a (replicate 48000 0)))"
    by (rule exI [of _ 0], rule exI [of _ 0]) (simp add: silent_lib_def)
  have 2: "\<forall>m. \<exists>m'. resample silent_lib (replicate m 0) 16000 TARGET_SR = Inr (replicate m' 0)"
    by (simp add: silent_lib_def)
  have 3: "\<forall>m. effects_preemphasis silent_lib (replicate m 0) PRE_EMPHASIS_COEF
                       = Inr (replicate m 0)"
    by (simp add: silent_lib_def)
  show ?thesis by (rule normalize_audio_silent_3s_16k [OF 1 2 3])
qed

section \<open>Properties of the top-3 list\<close>

lemma stable_argsort_contract:
  assumes "np_argsort rt = stable_argsort"
  shows "argsort_contract rt p"
  using assms
  by (simp add: argsort_contract_def stable_argsort_def list_all_iff)

lemma top_3_indices_desc:
  assumes "argsort_contract rt p"
  shows "sorted_wrt (\<lambda>a b. p ! b \<le> p ! a) (top_3_indices rt p)"
proof -
  have "sorted_wrt (\<lambda>a b. p ! a \<le> p ! b) (np_argsort rt p)"
    using assms by (simp add: argsort_contract_def sorted_map)
  then have "sorted_wrt (\<lambda>a b. p ! b \<le> p ! a) (rev (np_argsort rt p))"
    by (simp add: sorted_wrt_rev)
  then show ?thesis unfolding top_3_indices_def by (rule sorted_wrt_take)
qed

lemma top_3_indices_length:
  assumes "argsort_contract rt p"
  shows "length (top_3_indices rt p) = min 3 (length p)"
  using assms by (simp add: top_3_indices_def argsort_contract_def)

lemma top_3_indices_distinct:
  assumes "argsort_contract rt p"
  shows "distinct (top_3_indices rt p)"
  using assms by (simp add: top_3_indices_def argsort_contract_def)

lemma top_3_entries_Inr:
  assumes "top_3_entries rt cls p = Inr es"
  shows "es = map (\<lambda>idx. (cls ! idx, p ! idx)) (top_3_indices rt p)"
  using assms by (simp add: top_3_entries_def split: if_splits)

lemma top_3_indices_example:
  "top_3_indices example_runtime [1 / 10, 2 / 5, 1 / 10, 2 / 5] = [3, 1, 2]"
  by (simp add: top_3_indices_def example_runtime_def stable_argsort_def upt_rec)

text \<open>
  A result of \<^verbatim>\<open>np.argsort\<close> that leaves equal values in descending index order lists the
  lower index first.
\<close>

lemma top_3_indices_of_descending_ties:
  assumes "np_argsort rt [1 / 2, 1 / 2, 0, 0] = [3, 2, 1, 0]"
  shows "argsort_contract rt [1 / 2, 1 / 2, 0, 0]
     \<and> top_3_indices rt [1 / 2, 1 / 2, 0, 0] = [0, 1, 2]"
  using assms by (simp add: argsort_contract_def top_3_indices_def)

text \<open>
  Claim C1, as amended. Whatever indices \<^verbatim>\<open>np.argsort\<close> returns within its contract, the
  top-3 list has \<open>min 3 n\<close> entries for \<open>n\<close> classes, each the class and probability of one
  index, no index twice, and the confidences are in non-increasing order. Nothing is said
  about the order of entries with exactly equal confidence.
\<close>

theorem top_3_sorted_by_confidence:
  assumes "argsort_contract rt p" and "top_3_entries rt cls p = Inr es"
  shows "length es = min 3 (length p)
     \<and> distinct (top_3_indices rt p)
     \<and> map snd es = map (\<lambda>idx. p ! idx) (top_3_indices rt p)
     \<and> map fst es = map (\<lambda>idx. cls ! idx) (top_3_indices rt p)
     \<and> (\<forall>i j. i < j \<and> j < length es \<longrightarrow> snd (es ! j) \<le> snd (es ! i))"
proof -
  have es: "es = map (\<lambda>idx. (cls ! idx, p ! idx)) (top_3_indices rt p)"
    using assms(2) by (rule top_3_entries_Inr)
  have len: "length es = length (top_3_indices rt p)" by (simp add: es)
  have "snd (es ! j) \<le> snd (es ! i)" if "i < j" and "j < length es" for i j
    using that top_3_indices_desc [OF assms(1)] by (simp add: es sorted_wrt_iff_nth_less)
  then show ?thesis
    using len top_3_indices_length [OF assms(1)] top_3_indices_distinct [OF assms(1)]
    by (simp add: es comp_def)
qed

theorem top_3_sorted_by_confidence_witness:
  "argsort_contract example_runtime [1 / 10, 2 / 5, 1 / 10, 2 / 5]
   \<and> top_3_entries example_runtime [''a'', ''b'', ''c'', ''d''] [1 / 10, 2 / 5, 1 / 10, 2 / 5]
       = Inr [(''d'', 2 / 5), (''b'', 2 / 5), (''c'', 1 / 10)]
   \<and> length [(''d'', 2 / 5), (''b'', 2 / 5), (''c'', 1 / 10 :: real)]
       = min 3 (length [1 / 10, 2 / 5, 1 / 10, 2 / 5 :: real])
   \<and> snd ([(''d'', 2 / 5), (''b'', 2 / 5), (''c'', 1 / 10 :: real)] ! 2)
       \<le> snd ([(''d'', 2 / 5), (''b'', 2 / 5), (''c'', 1 / 10 :: real)] ! 1)"
proof -
  have c: "argsort_contract example_runtime [1 / 10, 2 / 5, 1 / 10, 2 / 5]"
    by (rule stable_argsort_contract) (simp add: example_runtime_def)
  have e: "top_3_entries example_runtime [''a'', ''b'', ''c'', ''d''] [1 / 10, 2 / 5, 1 / 10, 2 / 5]
             = Inr [(''d'', 2 / 5), (''b'', 2 / 5), (''c'', 1 / 10)]"
    by (simp add: top_3_entries_def top_3_indices_example)
  show ?thesis
    using top_3_sorted_by_confidence [OF c e] c e by simp
qed

text \<open>
  Two classes of probability one half each, and the stable ascending order of their
  indices, which is within the contract of \<^verbatim>\<open>np.argsort\<close>: class 1 is listed before
  class 0, so the class with the lower index does not come first.
\<close>

theorem top_3_tie_lower_index_not_first:
  "argsort_contract example_runtime [1 / 2, 1 / 2]
   \<and> np_argsort example_runtime [1 / 2, 1 / 2] = [0, 1]
   \<and> top_3_indices example_runtime [1 / 2, 1 / 2] = [1, 0]
   \<and> top_3_entries example_runtime [''a'', ''b''] [1 / 2, 1 / 2]
       = Inr [(''b'', 1 / 2), (''a'', 1 / 2)]"
  by (simp add: argsort_contract_def top_3_entries_def top_3_indices_def example_runtime_def
      stable_argsort_def)

section \<open>Properties of feature-vector prediction\<close>

text \<open>
  Claim C7. When the model declares an expected input dimensionality (the attribute is
  there and not zero) and the feature list has another length, the request ends with a
  400 error whose detail names the expected and the received count, and with no call to
  the scaler or the model.
\<close>

theorem predict_dimension_mismatch:
  assumes "model_n_features_in (model ctx) = Some expected_dim"
    and "expected_dim \<noteq> 0"
    and "int (length features) \<noteq> expected_dim"
  shows "predict rt ctx features =
           ([], Inl (HTTPException 400
                  (''Expected '' @ str_int expected_dim @ '' features, got ''
                     @ str_nat (length features))))"
  using assms by (simp add: predict_def dimension_mismatch_def)

theorem predict_dimension_mismatch_witness:
  "predict example_runtime example_context (replicate 10 0) =
     ([], Inl (HTTPException 400 ''Expected 26 features, got 10''))"
proof -
  have 1: "model_n_features_in (model example_context) = Some 26"
    by (simp add: example_context_def example_model_def)
  have 2: "int (length (replicate 10 (0::real))) \<noteq> 26" by simp
  have 3: "str_int 26 = ''26''" by (simp add: str_int_def digit_char_def)
  have 4: "str_nat (length (replicate 10 (0::real))) = ''10''" by (simp add: digit_char_def)
  show ?thesis
    using predict_dimension_mismatch [OF 1 _ 2] by (simp only: 3 4) simp
qed

lemma predict_events_no_check:
  assumes "dimension_mismatch (model ctx) (length features) = None"
  shows "fst (predict rt ctx features) \<noteq> []
     \<and> hd (fst (predict rt ctx features))
         = (case scaler ctx of None \<Rightarrow> ModelPredict features
                             | Some t \<Rightarrow> ScalerTransform features)
     \<and> (\<forall>X1. snd (apply_scaler ctx features) = Inr X1
            \<longrightarrow> ModelPredict X1 \<in> set (fst (predict rt ctx features)))
     \<and> (\<forall>detail. snd (predict rt ctx features) \<noteq> Inl (HTTPException 400 detail))"
  using assms
  by (auto simp: predict_def apply_scaler_def Let_def
      split: option.splits sum.splits prod.splits list.splits)

text \<open>
  Claim C10. When the model has no \<^verbatim>\<open>n_features_in_\<close> or its value is zero, no length
  is checked: whatever the length of the feature list, the first call is the scaler's
  transform of the list as given (the model's prediction of it when there is no scaler),
  the model predicts on what the scaler returns, and no 400 error ends the request.
\<close>

theorem predict_without_declared_dimension:
  assumes "model_n_features_in (model ctx) = None \<or> model_n_features_in (model ctx) = Some 0"
  shows "dimension_mismatch (model ctx) (length features) = None
     \<and> fst (predict rt ctx features) \<noteq> []
     \<and> hd (fst (predict rt ctx features))
         = (case scaler ctx of None \<Rightarrow> ModelPredict features
                             | Some t \<Rightarrow> ScalerTransform features)
     \<and> (\<forall>X1. snd (apply_scaler ctx features) = Inr X1
            \<longrightarrow> ModelPredict X1 \<in> set (fst (predict rt ctx features)))
     \<and> (\<forall>detail. snd (predict rt ctx features) \<noteq> Inl (HTTPException 400 detail))"
proof -
  have "dimension_mismatch (model ctx) (length features) = None"
    using assms by (auto simp: dimension_mismatch_def)
  then show ?thesis using predict_events_no_check by blast
qed

theorem predict_without_declared_dimension_witness:
  "fst (predict example_runtime (example_context \<lparr> model := example_model \<lparr> model_n_features_in := None \<rparr> \<rparr>)
          [1, 2, 3]) \<noteq> []
   \<and> hd (fst (predict example_runtime (example_context \<lparr> model := example_model \<lparr> model_n_features_in := None \<rparr> \<rparr>)
              [1, 2, 3])) = ModelPredict [1, 2, 3]
   \<and> snd (predict example_runtime (example_context \<lparr> model := example_model \<lparr> model_n_features_in := Some 0 \<rparr> \<rparr>)
           [1, 2, 3])
       = Inr \<lparr>prediction = PyStr ''Bullfrog'',
              top_3 = Some [(''Bullfrog'', 1 / 2), (''Spring Peeper'', 1 / 4),
                            (''Green Treefrog'', 1 / 4)],
              probabilities = Some [1 / 2, 1 / 4, 1 / 4],
              filename = None, signed_url = None, signed_url_expires_in = None\<rparr>"
proof -
  let ?c = "example_context \<lparr> model := example_model \<lparr> model_n_features_in := None \<rparr> \<rparr>"
  let ?z = "example_context \<lparr> model := example_model \<lparr> model_n_features_in := Some 0 \<rparr> \<rparr>"
  have n: "model_n_features_in (model ?c) = None \<or> model_n_features_in (model ?c) = Some 0"
    by (simp add: example_context_def)
  have s: "scaler ?c = None" by (simp add: example_context_def)
  have z: "dimension_mismatch (model ?z) (length [1, 2, 3 :: real]) = None"
    using predict_without_declared_dimension [of ?z "[1, 2, 3]" example_runtime]
    by (simp add: example_context_def)
  have r: "snd (predict example_runtime ?z [1, 2, 3])
       = Inr \<lparr>prediction = PyStr ''Bullfrog'',
              top_3 = Some [(''Bullfrog'', 1 / 2), (''Spring Peeper'', 1 / 4),
                            (''Green Treefrog'', 1 / 4)],
              probabilities = Some [1 / 2, 1 / 4, 1 / 4],
              filename = None, signed_url = None, signed_url_expires_in = None\<rparr>"
    using z
    by (simp add: predict_def example_context_def example_model_def apply_scaler_def
        predict_probabilities_def top_3_entries_def top_3_indices_def example_runtime_def stable_argsort_def
        prediction_value_def Let_def)
  show ?thesis
    using predict_without_declared_dimension [OF n, of "[1, 2, 3]" example_runtime] s r by simp
qed

section \<open>Properties of audio prediction\<close>

lemma predict_probabilities_events:
  "fst (predict_probabilities rt m X) = [] \<or> fst (predict_probabilities rt m X) = [ModelPredictProba X]"
  by (simp add: predict_probabilities_def split: option.splits)

lemma audio_prediction_success:
  assumes "audio_prediction rt ctx ext X = (ev, Inr resp)"
    and "SAVE_UPLOADS ctx" and "supabase ctx = Some client"
  shows "\<exists>name ev0. name \<noteq> [] \<and> filename resp = Some name
           \<and> ev = ev0 @ [ScheduleSave name, CreateSignedUrl name]
           \<and> filter is_schedule_save ev0 = []"
proof -
  obtain evp r where p: "predict_probabilities rt (model ctx) X = (evp, r)"
    by (cases "predict_probabilities rt (model ctx) X")
  have evp: "filter is_schedule_save evp = []"
    using predict_probabilities_events [of rt "model ctx" X] p
    by (auto simp: is_schedule_save_def)
  show ?thesis
    using assms p evp
    by (auto simp: audio_prediction_def prediction_failed_def Let_def is_schedule_save_def
        split: sum.splits list.splits option.splits prod.splits)
qed

lemma predict_from_audio_success:
  assumes "predict_from_audio rt lib ctx file = (ev, Inr resp)"
  shows "\<exists>X ev1 ev2. audio_prediction rt ctx (lower (snd (splitext (upload_filename file)))) X
                        = (ev2, Inr resp)
           \<and> ev = ev1 @ ev2 \<and> filter is_schedule_save ev1 = []"
proof -
  note d = predict_from_audio_def Let_def
  have allowed: "lower (snd (splitext (upload_filename file))) \<in> set allowed_extensions"
    using assms by (auto simp: d split: if_splits)
  obtain y sr where 1: "load lib (upload_content file) = Inr (y, sr)"
    using assms allowed by (cases "load lib (upload_content file)") (auto simp: d)
  obtain yn srn where 2: "normalize_audio rt lib y sr True = Inr (yn, srn)"
    using assms allowed 1 by (cases "normalize_audio rt lib y sr True") (auto simp: d)
  obtain fd where 3: "extract_audio_features lib yn srn = Inr fd"
    using assms allowed 1 2 by (cases "extract_audio_features lib yn srn") (auto simp: d)
  obtain names where 4: "feature_names ctx = Some names"
    using assms allowed 1 2 3 by (cases "feature_names ctx") (auto simp: d)
  obtain X where 5: "features_dict_to_array fd names = Inr X"
    using assms allowed 1 2 3 4 by (cases "features_dict_to_array fd names") (auto simp: d)
  have 6: "dimension_mismatch (model ctx) (length X) = None"
    using assms allowed 1 2 3 4 5
    by (cases "dimension_mismatch (model ctx) (length X)") (auto simp: d)
  obtain evs rs where 7: "apply_scaler ctx X = (evs, rs)"
    by (cases "apply_scaler ctx X")
  obtain X1 where 8: "rs = Inr X1"
    using assms allowed 1 2 3 4 5 6 7 by (cases rs) (auto simp: d)
  obtain evp r where 9: "audio_prediction rt ctx (lower (snd (splitext (upload_filename file)))) X1
                         = (evp, r)"
    by (cases "audio_prediction rt ctx (lower (snd (splitext (upload_filename file)))) X1")
  have ev: "ev = ([FileRead, LibrosaLoad, NormalizeAudio, ExtractFeatures] @ evs) @ evp"
    and r: "r = Inr resp"
    using assms allowed 1 2 3 4 5 6 7 8 9 by (auto simp: d)
  have "filter is_schedule_save evs = []"
    using 7 by (auto simp: apply_scaler_def is_schedule_save_def split: option.splits)
  then have "filter is_schedule_save ([FileRead, LibrosaLoad, NormalizeAudio, ExtractFeatures] @ evs) = []"
    by (simp add: is_schedule_save_def)
  then show ?thesis using 9 ev r by blast
qed

lemma silent_lib_normalize:
  "normalize_audio rt silent_lib (Arr1 (replicate 48000 0)) 16000 True
     = Inr (replicate 220500 0, 22050)"
proof -
  have "int 48000 \<le> py_int (TARGET_DURATION * real_of_int 16000)"
    by (simp add: TARGET_DURATION_def py_int_def)
  moreover have "(16000::int) \<noteq> TARGET_SR" by (simp add: TARGET_SR_def)
  moreover have "\<exists>a b. effects_trim silent_lib (replicate 48000 0) 30
                        = Inr (take b (drop a (replicate 48000 0)))"
    by (rule exI [of _ 0], rule exI [of _ 0]) (simp add: silent_lib_def)
  ultimately show ?thesis
    by (intro normalize_audio_silence) (simp_all add: silent_lib_def)
qed

lemma extract_silent:
  "extract_audio_features silent_lib y sr =
     Inr (map (\<lambda>name. (name, 0)) canonical_feature_names)"
  by (simp add: extract_audio_features_def silent_lib_def bind_exn_def row_def upt_rec
      np_mean_def np_std_def digit_char_def canonical_feature_names_def)

lemma order_silent:
  "features_dict_to_array (map (\<lambda>name. (name, 0)) canonical_feature_names)
     canonical_feature_names = Inr (replicate 26 0)"
  by (simp add: features_dict_to_array_def canonical_feature_names_def eval_nat_numeral)

lemma example_upload_ext: "lower (snd (splitext (upload_filename example_upload))) = ''.wav''"
  by (simp add: example_upload_def splitext_def rfind_def lower_def lower_char_def upt_rec)

lemma silent_lib_load: "load silent_lib bytes = Inr (Arr1 (replicate 48000 0), 16000)"
  by (simp add: silent_lib_def)

text \<open>With the example library and upload the request reaches the prediction block.\<close>

lemma example_request:
  assumes "feature_names ctx = Some canonical_feature_names"
    and "model_n_features_in (model ctx) = Some 26" and "scaler ctx = None"
  shows "predict_from_audio rt silent_lib ctx example_upload =
           ([FileRead, LibrosaLoad, NormalizeAudio, ExtractFeatures]
              @ fst (audio_prediction rt ctx ''.wav'' (replicate 26 0)),
            snd (audio_prediction rt ctx ''.wav'' (replicate 26 0)))"
  using assms
  by (simp add: predict_from_audio_def example_upload_ext allowed_extensions_def
      silent_lib_load silent_lib_normalize extract_silent order_silent
      dimension_mismatch_def apply_scaler_def split: prod.splits)

lemma bmp_ext: "lower (snd (splitext ''frog.BMP'')) = ''.bmp''"
  by (simp add: splitext_def rfind_def lower_def lower_char_def upt_rec)

text \<open>
  Claim C3, at a model without \<^verbatim>\<open>predict_proba\<close>. The audio endpoint ends with a 500
  error where the feature-vector endpoint answers with the label and leaves top-3 and
  probabilities out.
\<close>

theorem audio_prediction_needs_predict_proba:
  "predict_from_audio example_runtime silent_lib no_proba_context example_upload =
     ([FileRead, LibrosaLoad, NormalizeAudio, ExtractFeatures, ModelPredict (replicate 26 0)],
      Inl (HTTPException 500 ''Prediction failed: object has no attribute predict_proba''))
   \<and> predict example_runtime no_proba_context (replicate 26 0) =
     ([ModelPredict (replicate 26 0)],
      Inr \<lparr>prediction = PyStr ''Bullfrog'', top_3 = None, probabilities = None,
           filename = None, signed_url = None, signed_url_expires_in = None\<rparr>)"
proof -
  have c: "feature_names no_proba_context = Some canonical_feature_names"
    "model_n_features_in (model no_proba_context) = Some 26" "scaler no_proba_context = None"
    by (simp_all add: no_proba_context_def example_context_def example_model_def)
  have a: "audio_prediction example_runtime no_proba_context ''.wav'' (replicate 26 0) =
     ([ModelPredict (replicate 26 0)],
      Inl (HTTPException 500 ''Prediction failed: object has no attribute predict_proba''))"
    by (simp add: audio_prediction_def no_proba_context_def example_context_def
        example_model_def predict_probabilities_def prediction_failed_def)
  have p: "predict example_runtime no_proba_context (replicate 26 0) =
     ([ModelPredict (replicate 26 0)],
      Inr \<lparr>prediction = PyStr ''Bullfrog'', top_3 = None, probabilities = None,
           filename = None, signed_url = None, signed_url_expires_in = None\<rparr>)"
    by (simp add: predict_def no_proba_context_def example_context_def example_model_def
        dimension_mismatch_def apply_scaler_def predict_probabilities_def prediction_value_def)
  show ?thesis using example_request [OF c, of example_runtime] a p by simp
qed

text \<open>
  Claim C8. An upload whose extension, lowered, is not one of the allowed extensions ends
  with a 400 error whose detail lists the allowed extensions, and with no effect: the
  upload is not read and nothing is decoded.
\<close>

theorem unsupported_extension_rejected:
  assumes "lower (snd (splitext (upload_filename file))) \<notin> set allowed_extensions"
  shows "predict_from_audio rt lib ctx file =
           ([], Inl (HTTPException 400
                  (''Unsupported audio format: '' @ lower (snd (splitext (upload_filename file)))
                     @ ''. Supported formats: ''
                     @ join '', '' (set_iteration rt allowed_extensions))))"
  using assms by (simp add: predict_from_audio_def)

theorem unsupported_extension_rejected_witness:
  "predict_from_audio example_runtime silent_lib example_context
     \<lparr>upload_filename = ''frog.BMP'', upload_content = ''BM''\<rparr> =
     ([], Inl (HTTPException 400
       ''Unsupported audio format: .bmp. Supported formats: .wav, .mp3, .flac, .ogg, .m4a, .aac, .wma''))"
proof -
  have n: "lower (snd (splitext (upload_filename
             \<lparr>upload_filename = ''frog.BMP'', upload_content = ''BM''\<rparr>)))
           \<notin> set allowed_extensions"
    by (simp add: bmp_ext allowed_extensions_def)
  show ?thesis
    using unsupported_extension_rejected [OF n, of example_runtime silent_lib example_context]
    by (simp add: bmp_ext allowed_extensions_def example_runtime_def)
qed

section \<open>Properties of persistence\<close>

lemma background_save_trace:
  assumes "supabase ctx = Some client" and "filename resp = Some name" and "name \<noteq> []"
  shows "background_save rt ctx file resp =
          (case storage_upload client name (upload_content file)
                  (guess_content_type_from_ext (upload_filename file)) of
             Inl e \<Rightarrow>
               [StorageUpload name,
                Print (''Background Supabase save failed: Storage upload failed: '' @ e)]
           | Inr upload_resp \<Rightarrow>
               [StorageUpload name,
                Print (''Supabase storage upload response: '' @ upload_resp),
                TableInsert name,
                (case table_insert client
                        \<lparr>md_filename = name, md_original_filename = upload_filename file,
                         md_prediction = prediction resp, md_top_3_predictions = top_3 resp,
                         md_all_probabilities = probabilities resp,
                         md_timestamp = utcnow_isoformat rt\<rparr> of
                   Inl e \<Rightarrow> Print (''DB insert failed: '' @ e)
                 | Inr db_resp \<Rightarrow> Print (''Supabase DB insert response: '' @ db_resp)),
                Print ''Background Supabase save completed''])"
  using assms
  by (simp add: background_save_def save_prediction_to_supabase_def log_bg_result_def Let_def
      split: sum.splits)

lemma example_runtime_clock:
  "utcnow_strftime example_runtime = ''20240101_120000''"
  "utcnow_isoformat example_runtime = ''2024-01-01T12:00:00''"
  "format_2f example_runtime = example_format_2f"
  by (simp_all add: example_runtime_def)

lemma fmt_half: "example_format_2f (1 / 2) = ''0.50''"
  by (simp add: example_format_2f_def digit_char_def)

lemma example_top_3:
  "top_3_entries example_runtime [''Bullfrog'', ''Green Treefrog'', ''Spring Peeper''] [1 / 2, 1 / 4, 1 / 4]
     = Inr [(''Bullfrog'', 1 / 2), (''Spring Peeper'', 1 / 4), (''Green Treefrog'', 1 / 4)]"
  by (simp add: top_3_entries_def top_3_indices_def example_runtime_def stable_argsort_def)

lemma example_persisting_request:
  assumes "create_signed_url client ''20240101_120000_Bullfrog_0.50.wav'' 900
             = Inr (Some ''https://storage/20240101_120000_Bullfrog_0.50.wav'')"
  shows "predict_from_audio example_runtime silent_lib (persisting_context client) example_upload =
     ([FileRead, LibrosaLoad, NormalizeAudio, ExtractFeatures,
       ModelPredict (replicate 26 0), ModelPredictProba (replicate 26 0),
       ScheduleSave ''20240101_120000_Bullfrog_0.50.wav'',
       CreateSignedUrl ''20240101_120000_Bullfrog_0.50.wav''],
      Inr (example_response (Some ''https://storage/20240101_120000_Bullfrog_0.50.wav'')))"
proof -
  have c: "feature_names (persisting_context client) = Some canonical_feature_names"
    "model_n_features_in (model (persisting_context client)) = Some 26"
    "scaler (persisting_context client) = None"
    by (simp_all add: persisting_context_def example_context_def example_model_def)
  have a: "audio_prediction example_runtime (persisting_context client) ''.wav'' (replicate 26 0) =
     ([ModelPredict (replicate 26 0), ModelPredictProba (replicate 26 0),
       ScheduleSave ''20240101_120000_Bullfrog_0.50.wav'',
       CreateSignedUrl ''20240101_120000_Bullfrog_0.50.wav''],
      Inr (example_response (Some ''https://storage/20240101_120000_Bullfrog_0.50.wav'')))"
    using assms
    by (simp add: audio_prediction_def persisting_context_def example_context_def
        example_model_def predict_probabilities_def example_top_3 prediction_value_def
        str_pyval_def example_runtime_clock fmt_half example_response_def Let_def)
  show ?thesis using example_request [OF c, of example_runtime] a by simp
qed

lemma example_content_type: "guess_content_type_from_ext (upload_filename example_upload) = ''audio/wav''"
  by (simp add: guess_content_type_from_ext_def example_upload_ext content_type_map_def)

text \<open>
  Claim C2, as amended. After a successful audio prediction with persistence enabled the
  request has scheduled exactly one save. The save attempts the upload exactly once. When
  the upload succeeds it attempts the insert exactly once, and a failed insert is logged
  and leaves the upload as it is. When the upload fails, the failure is raised to the
  task's callback, which logs it, and the insert is not attempted.
\<close>

theorem persistence_attempts:
  assumes "predict_from_audio rt lib ctx file = (ev, Inr resp)"
    and "SAVE_UPLOADS ctx" and "supabase ctx = Some client"
  shows "\<exists>name. filename resp = Some name
      \<and> filter is_schedule_save ev = [ScheduleSave name]
      \<and> length (filter is_storage_upload (background_save rt ctx file resp)) = 1
      \<and> length (filter is_table_insert (background_save rt ctx file resp))
          = (case storage_upload client name (upload_content file)
                    (guess_content_type_from_ext (upload_filename file)) of
               Inl e \<Rightarrow> 0 | Inr upload_resp \<Rightarrow> 1)
      \<and> background_save rt ctx file resp =
          (case storage_upload client name (upload_content file)
                  (guess_content_type_from_ext (upload_filename file)) of
             Inl e \<Rightarrow>
               [StorageUpload name,
                Print (''Background Supabase save failed: Storage upload failed: '' @ e)]
           | Inr upload_resp \<Rightarrow>
               [StorageUpload name,
                Print (''Supabase storage upload response: '' @ upload_resp),
                TableInsert name,
                (case table_insert client
                        \<lparr>md_filename = name, md_original_filename = upload_filename file,
                         md_prediction = prediction resp, md_top_3_predictions = top_3 resp,
                         md_all_probabilities = probabilities resp,
                         md_timestamp = utcnow_isoformat rt\<rparr> of
                   Inl e \<Rightarrow> Print (''DB insert failed: '' @ e)
                 | Inr db_resp \<Rightarrow> Print (''Supabase DB insert response: '' @ db_resp)),
                Print ''Background Supabase save completed''])"
proof -
  obtain X ev1 ev2 where a: "audio_prediction rt ctx (lower (snd (splitext (upload_filename file)))) X
                        = (ev2, Inr resp)"
    and ev: "ev = ev1 @ ev2" and ev1: "filter is_schedule_save ev1 = []"
    using predict_from_audio_success [OF assms(1)] by blast
  obtain name ev0 where n: "name \<noteq> []" and f: "filename resp = Some name"
    and ev2: "ev2 = ev0 @ [ScheduleSave name, CreateSignedUrl name]"
    and ev0: "filter is_schedule_save ev0 = []"
    using audio_prediction_success [OF a assms(2,3)] by blast
  have s: "filter is_schedule_save ev = [ScheduleSave name]"
    by (simp add: ev ev1 ev2 ev0) (simp add: is_schedule_save_def)
  note t = background_save_trace [OF assms(3) f n]
  have u: "length (filter is_storage_upload (background_save rt ctx file resp)) = 1"
    unfolding t by (simp add: is_storage_upload_def split: sum.splits)
  have i: "length (filter is_table_insert (background_save rt ctx file resp))
          = (case storage_upload client name (upload_content file)
                    (guess_content_type_from_ext (upload_filename file)) of
               Inl e \<Rightarrow> 0 | Inr upload_resp \<Rightarrow> 1)"
    unfolding t by (simp add: is_table_insert_def split: sum.splits)
  show ?thesis using f s u i t by blast
qed

theorem persistence_attempts_witness:
  "filter is_schedule_save
     (fst (predict_from_audio example_runtime silent_lib (persisting_context failing_insert_client)
             example_upload))
     = [ScheduleSave ''20240101_120000_Bullfrog_0.50.wav'']
   \<and> background_save example_runtime (persisting_context failing_insert_client) example_upload
       (example_response (Some ''https://storage/20240101_120000_Bullfrog_0.50.wav''))
     = [StorageUpload ''20240101_120000_Bullfrog_0.50.wav'',
        Print ''Supabase storage upload response: ok'',
        TableInsert ''20240101_120000_Bullfrog_0.50.wav'',
        Print ''DB insert failed: relation does not exist'',
        Print ''Background Supabase save completed'']"
proof -
  let ?ctx = "persisting_context failing_insert_client"
  have u: "create_signed_url failing_insert_client ''20240101_120000_Bullfrog_0.50.wav'' 900
             = Inr (Some ''https://storage/20240101_120000_Bullfrog_0.50.wav'')"
    by (simp add: failing_insert_client_def working_client_def)
  note r = example_persisting_request [OF u]
  have s: "SAVE_UPLOADS ?ctx" and c: "supabase ?ctx = Some failing_insert_client"
    by (simp_all add: persisting_context_def)
  obtain name where n: "filename (example_response
                  (Some ''https://storage/20240101_120000_Bullfrog_0.50.wav'')) = Some name"
    and f: "filter is_schedule_save
              [FileRead, LibrosaLoad, NormalizeAudio, ExtractFeatures,
               ModelPredict (replicate 26 0), ModelPredictProba (replicate 26 0),
               ScheduleSave ''20240101_120000_Bullfrog_0.50.wav'',
               CreateSignedUrl ''20240101_120000_Bullfrog_0.50.wav''] = [ScheduleSave name]"
    and b: "background_save example_runtime ?ctx example_upload
              (example_response (Some ''https://storage/20240101_120000_Bullfrog_0.50.wav''))
            = (case storage_upload failing_insert_client name (upload_content example_upload)
                      (guess_content_type_from_ext (upload_filename example_upload)) of
                 Inl e \<Rightarrow>
                   [StorageUpload name,
                    Print (''Background Supabase save failed: Storage upload failed: '' @ e)]
               | Inr upload_resp \<Rightarrow>
                   [StorageUpload name,
                    Print (''Supabase storage upload response: '' @ upload_resp),
                    TableInsert name,
                    (case table_insert failing_insert_client
                            \<lparr>md_filename = name,
                             md_original_filename = upload_filename example_upload,
                             md_prediction = prediction (example_response
                               (Some ''https://storage/20240101_120000_Bullfrog_0.50.wav'')),
                             md_top_3_predictions = top_3 (example_response
                               (Some ''https://storage/20240101_120000_Bullfrog_0.50.wav'')),
                             md_all_probabilities = probabilities (example_response
                               (Some ''https://storage/20240101_120000_Bullfrog_0.50.wav'')),
                             md_timestamp = utcnow_isoformat example_runtime\<rparr> of
                       Inl e \<Rightarrow> Print (''DB insert failed: '' @ e)
                     | Inr db_resp \<Rightarrow> Print (''Supabase DB insert response: '' @ db_resp)),
                    Print ''Background Supabase save completed''])"
    using persistence_attempts [OF r s c] by blast
  have name: "name = ''20240101_120000_Bullfrog_0.50.wav''"
    using n by (simp add: example_response_def)
  have "fst (predict_from_audio example_runtime silent_lib ?ctx example_upload) =
          [FileRead, LibrosaLoad, NormalizeAudio, ExtractFeatures,
           ModelPredict (replicate 26 0), ModelPredictProba (replicate 26 0),
           ScheduleSave ''20240101_120000_Bullfrog_0.50.wav'',
           CreateSignedUrl ''20240101_120000_Bullfrog_0.50.wav'']"
    by (simp add: r)
  then show ?thesis
    using f b unfolding name
    by (simp add: failing_insert_client_def working_client_def)
qed

text \<open>
  With a storage whose upload fails, the save of the example request ends after the upload
  attempt: no insert is attempted.
\<close>

theorem failed_upload_skips_insert:
  "predict_from_audio example_runtime silent_lib (persisting_context failing_upload_client)
     example_upload =
     ([FileRead, LibrosaLoad, NormalizeAudio, ExtractFeatures,
       ModelPredict (replicate 26 0), ModelPredictProba (replicate 26 0),
       ScheduleSave ''20240101_120000_Bullfrog_0.50.wav'',
       CreateSignedUrl ''20240101_120000_Bullfrog_0.50.wav''],
      Inr (example_response (Some ''https://storage/20240101_120000_Bullfrog_0.50.wav'')))
   \<and> background_save example_runtime (persisting_context failing_upload_client) example_upload
       (example_response (Some ''https://storage/20240101_120000_Bullfrog_0.50.wav''))
     = [StorageUpload ''20240101_120000_Bullfrog_0.50.wav'',
        Print ''Background Supabase save failed: Storage upload failed: bucket not found'']
   \<and> filter is_table_insert
       (background_save example_runtime (persisting_context failing_upload_client) example_upload
          (example_response (Some ''https://storage/20240101_120000_Bullfrog_0.50.wav''))) = []"
proof -
  have u: "create_signed_url failing_upload_client ''20240101_120000_Bullfrog_0.50.wav'' 900
             = Inr (Some ''https://storage/20240101_120000_Bullfrog_0.50.wav'')"
    by (simp add: failing_upload_client_def working_client_def)
  have b: "background_save example_runtime (persisting_context failing_upload_client) example_upload
       (example_response (Some ''https://storage/20240101_120000_Bullfrog_0.50.wav''))
     = [StorageUpload ''20240101_120000_Bullfrog_0.50.wav'',
        Print ''Background Supabase save failed: Storage upload failed: bucket not found'']"
    by (simp add: background_save_def save_prediction_to_supabase_def log_bg_result_def
        persisting_context_def example_response_def failing_upload_client_def
        working_client_def)
  show ?thesis
    using example_persisting_request [OF u] b by (simp add: is_table_insert_def)
qed

section \<open>Properties of startup with missing files\<close>

lemma apply_scaler_ignores_feature_names:
  "apply_scaler (ctx \<lparr> feature_names := names \<rparr>) X = apply_scaler ctx X"
  by (simp add: apply_scaler_def)

lemma predict_ignores_feature_names:
  "predict rt (ctx \<lparr> feature_names := names \<rparr>) features = predict rt ctx features"
  by (simp add: predict_def Let_def apply_scaler_ignores_feature_names split: option.splits)

lemma audio_without_feature_names_fails:
  assumes "feature_names ctx = None"
  shows "\<exists>err. snd (predict_from_audio rt lib ctx file) = Inl err"
  using assms
  by (auto simp: predict_from_audio_def Let_def split: sum.splits prod.splits)

lemma audio_without_feature_names_500:
  assumes "feature_names ctx = None"
    and "lower (snd (splitext (upload_filename file))) \<in> set allowed_extensions"
    and "load lib (upload_content file) = Inr (y, sr)"
  shows "\<exists>detail. snd (predict_from_audio rt lib ctx file) = Inl (HTTPException 500 detail)"
  using assms
  by (auto simp: predict_from_audio_def Let_def split: sum.splits prod.splits)

lemma predict_probabilities_no_scaling:
  "filter (\<lambda>e. \<not> is_scaler_transform e) (fst (predict_probabilities rt m X))
     = fst (predict_probabilities rt m X)"
  by (simp add: predict_probabilities_def is_scaler_transform_def split: option.splits)

lemma predict_without_scaler:
  assumes "scaler ctx = None"
  shows "predict rt ctx features = without_scaling (predict rt (ctx \<lparr> scaler := Some Inr \<rparr>) features)"
proof -
  obtain evp r where p: "predict_probabilities rt (model ctx) features = (evp, r)"
    by (cases "predict_probabilities rt (model ctx) features")
  have f: "filter (\<lambda>e. \<not> is_scaler_transform e) evp = evp"
    using predict_probabilities_no_scaling [of rt "model ctx" features] p by simp
  show ?thesis
    using assms p f
    by (simp add: predict_def apply_scaler_def without_scaling_def is_scaler_transform_def
        Let_def split: option.splits sum.splits list.splits prod.splits)
qed

lemma predict_without_scaler_events:
  assumes "scaler ctx = None"
  shows "filter is_scaler_transform (fst (predict rt ctx features)) = []"
proof -
  obtain evp r where p: "predict_probabilities rt (model ctx) features = (evp, r)"
    by (cases "predict_probabilities rt (model ctx) features")
  have "evp = [] \<or> evp = [ModelPredictProba features]"
    using predict_probabilities_events [of rt "model ctx" features] p by simp
  then show ?thesis
    using assms p
    by (auto simp: predict_def apply_scaler_def is_scaler_transform_def
        Let_def split: option.splits sum.splits list.splits prod.splits)
qed

lemma audio_prediction_ignores_scaler:
  "audio_prediction rt (ctx \<lparr> scaler := s \<rparr>) ext X = audio_prediction rt ctx ext X"
  by (simp add: audio_prediction_def Let_def
      split: sum.splits prod.splits list.splits option.splits)

lemma audio_prediction_no_scaling:
  "filter (\<lambda>e. \<not> is_scaler_transform e) (fst (audio_prediction rt ctx ext X))
     = fst (audio_prediction rt ctx ext X)"
proof -
  obtain evp r where p: "predict_probabilities rt (model ctx) X = (evp, r)"
    by (cases "predict_probabilities rt (model ctx) X")
  have f: "filter (\<lambda>e. \<not> is_scaler_transform e) evp = evp"
    using predict_probabilities_no_scaling [of rt "model ctx" X] p by simp
  show ?thesis
    using p f
    by (simp add: audio_prediction_def is_scaler_transform_def Let_def
        split: option.splits sum.splits list.splits prod.splits)
qed

lemma is_scaler_transform_simps:
  "is_scaler_transform (ScalerTransform X)"
  "\<not> is_scaler_transform FileRead" "\<not> is_scaler_transform LibrosaLoad"
  "\<not> is_scaler_transform NormalizeAudio" "\<not> is_scaler_transform ExtractFeatures"
  by (simp_all add: is_scaler_transform_def)

lemma predict_from_audio_without_scaler:
  assumes "scaler ctx = None"
  shows "predict_from_audio rt lib ctx file
           = without_scaling (predict_from_audio rt lib (ctx \<lparr> scaler := Some Inr \<rparr>) file)"
proof -
  have a: "apply_scaler ctx X = ([], Inr X)" for X
    using assms by (simp add: apply_scaler_def)
  have b: "apply_scaler (ctx \<lparr> scaler := Some Inr \<rparr>) X = ([ScalerTransform X], Inr X)" for X
    by (simp add: apply_scaler_def)
  have c: "filter (\<lambda>e. \<not> is_scaler_transform e) ev = ev"
    if "audio_prediction rt ctx ext X = (ev, r)" for ext X ev r
    using audio_prediction_no_scaling [of rt ctx ext X] that by simp
  show ?thesis
    by (auto simp: predict_from_audio_def Let_def a b audio_prediction_ignores_scaler
        without_scaling_def is_scaler_transform_simps c
        split: option.splits sum.splits prod.splits)
qed

lemma predict_from_audio_without_scaler_events:
  assumes "scaler ctx = None"
  shows "filter is_scaler_transform (fst (predict_from_audio rt lib ctx file)) = []"
proof -
  have "filter is_scaler_transform (filter (\<lambda>e. \<not> is_scaler_transform e) xs) = []" for xs
    by (induction xs) auto
  then show ?thesis
    unfolding predict_from_audio_without_scaler [OF assms] without_scaling_def by simp
qed

lemma load_artifacts_fields:
  assumes "load_artifacts a = Inr ctx"
  shows "(features_file a = None \<longrightarrow> feature_names ctx = None)"
    and "((\<exists>e. scaler_file a = Inl e) \<longrightarrow> scaler ctx = None)"
  using assms
  by (auto simp: load_artifacts_def Let_def split: sum.splits option.splits)

text \<open>
  Claim C9, as amended. After a startup without the feature-order file no audio request
  succeeds, and every audio request whose extension is allowed and whose upload decodes
  ends with a 500 error, while feature-vector prediction does not depend on the feature
  order at all. After a startup without the scaler file neither endpoint calls a scaler,
  and each behaves as it would with a scaler that returns its input, that call apart.
\<close>

theorem missing_startup_files:
  assumes "load_artifacts a = Inr ctx"
  shows "(features_file a = None \<longrightarrow>
            feature_names ctx = None
          \<and> (\<forall>rt lib file. \<exists>err. snd (predict_from_audio rt lib ctx file) = Inl err)
          \<and> (\<forall>rt lib file y sr.
                lower (snd (splitext (upload_filename file))) \<in> set allowed_extensions
                \<and> load lib (upload_content file) = Inr (y, sr)
                \<longrightarrow> (\<exists>detail. snd (predict_from_audio rt lib ctx file)
                                 = Inl (HTTPException 500 detail)))
          \<and> (\<forall>rt names features.
                predict rt ctx features = predict rt (ctx \<lparr> feature_names := names \<rparr>) features))
     \<and> ((\<exists>e. scaler_file a = Inl e) \<longrightarrow>
            scaler ctx = None
          \<and> (\<forall>rt features.
                filter is_scaler_transform (fst (predict rt ctx features)) = []
                \<and> predict rt ctx features
                    = without_scaling (predict rt (ctx \<lparr> scaler := Some Inr \<rparr>) features))
          \<and> (\<forall>rt lib file.
                filter is_scaler_transform (fst (predict_from_audio rt lib ctx file)) = []
                \<and> predict_from_audio rt lib ctx file
                    = without_scaling
                        (predict_from_audio rt lib (ctx \<lparr> scaler := Some Inr \<rparr>) file)))"
proof (intro conjI impI)
  assume f: "features_file a = None"
  then show n: "feature_names ctx = None" using load_artifacts_fields(1) [OF assms] by simp
  show "\<forall>rt lib file. \<exists>err. snd (predict_from_audio rt lib ctx file) = Inl err"
    using audio_without_feature_names_fails [OF n] by blast
  show "\<forall>rt lib file y sr.
                lower (snd (splitext (upload_filename file))) \<in> set allowed_extensions
                \<and> load lib (upload_content file) = Inr (y, sr)
                \<longrightarrow> (\<exists>detail. snd (predict_from_audio rt lib ctx file)
                                 = Inl (HTTPException 500 detail))"
    using audio_without_feature_names_500 [OF n] by blast
  show "\<forall>rt names features.
                predict rt ctx features = predict rt (ctx \<lparr> feature_names := names \<rparr>) features"
    by (simp add: predict_ignores_feature_names)
next
  assume "\<exists>e. scaler_file a = Inl e"
  then show s: "scaler ctx = None" using load_artifacts_fields(2) [OF assms] by simp
  show "\<forall>rt features.
                filter is_scaler_transform (fst (predict rt ctx features)) = []
                \<and> predict rt ctx features
                    = without_scaling (predict rt (ctx \<lparr> scaler := Some Inr \<rparr>) features)"
    using predict_without_scaler [OF s] predict_without_scaler_events [OF s] by blast
  show "\<forall>rt lib file.
                filter is_scaler_transform (fst (predict_from_audio rt lib ctx file)) = []
                \<and> predict_from_audio rt lib ctx file
                    = without_scaling
                        (predict_from_audio rt lib (ctx \<lparr> scaler := Some Inr \<rparr>) file)"
    using predict_from_audio_without_scaler [OF s]
      predict_from_audio_without_scaler_events [OF s] by blast
qed

lemma missing_files_context:
  "load_artifacts missing_files = Inr (example_context \<lparr> feature_names := None \<rparr>)"
  by (simp add: load_artifacts_def missing_files_def example_context_def)

lemma missing_files_audio:
  "predict_from_audio example_runtime silent_lib (example_context \<lparr> feature_names := None \<rparr>)
     example_upload
   = ([FileRead, LibrosaLoad, NormalizeAudio, ExtractFeatures],
      Inl (HTTPException 500 ''Feature names not loaded''))"
  by (simp add: predict_from_audio_def example_upload_ext allowed_extensions_def
      silent_lib_load silent_lib_normalize extract_silent)

lemma missing_files_predict:
  "predict example_runtime (example_context \<lparr> feature_names := None \<rparr>) (replicate 26 0)
   = ([ModelPredict (replicate 26 0), ModelPredictProba (replicate 26 0)],
      Inr \<lparr>prediction = PyStr ''Bullfrog'',
           top_3 = Some [(''Bullfrog'', 1 / 2), (''Spring Peeper'', 1 / 4),
                         (''Green Treefrog'', 1 / 4)],
           probabilities = Some [1 / 2, 1 / 4, 1 / 4],
           filename = None, signed_url = None, signed_url_expires_in = None\<rparr>)"
  by (simp add: predict_def example_context_def example_model_def dimension_mismatch_def
      apply_scaler_def predict_probabilities_def example_top_3 prediction_value_def Let_def)

theorem missing_startup_files_witness:
  "load_artifacts missing_files = Inr (example_context \<lparr> feature_names := None \<rparr>)
   \<and> features_file missing_files = None
   \<and> scaler_file missing_files = Inl ''No such file or directory''
   \<and> feature_names (example_context \<lparr> feature_names := None \<rparr>) = None
   \<and> scaler (example_context \<lparr> feature_names := None \<rparr>) = None
   \<and> (\<exists>detail. snd (predict_from_audio example_runtime silent_lib
                        (example_context \<lparr> feature_names := None \<rparr>) example_upload)
                 = Inl (HTTPException 500 detail))
   \<and> predict example_runtime (example_context \<lparr> feature_names := None \<rparr>) (replicate 26 0)
       = predict example_runtime (example_context \<lparr> feature_names := None \<rparr>
                    \<lparr> feature_names := Some canonical_feature_names \<rparr>) (replicate 26 0)
   \<and> filter is_scaler_transform
         (fst (predict example_runtime (example_context \<lparr> feature_names := None \<rparr>) (replicate 26 0))) = []
   \<and> snd (predict example_runtime (example_context \<lparr> feature_names := None \<rparr>) (replicate 26 0))
       = Inr \<lparr>prediction = PyStr ''Bullfrog'',
              top_3 = Some [(''Bullfrog'', 1 / 2), (''Spring Peeper'', 1 / 4),
                            (''Green Treefrog'', 1 / 4)],
              probabilities = Some [1 / 2, 1 / 4, 1 / 4],
              filename = None, signed_url = None, signed_url_expires_in = None\<rparr>"
proof -
  let ?ctx = "example_context \<lparr> feature_names := None \<rparr>"
  have f: "features_file missing_files = None"
    and s: "scaler_file missing_files = Inl ''No such file or directory''"
    by (simp_all add: missing_files_def)
  have e: "\<exists>e. scaler_file missing_files = Inl e" using s by blast
  have a: "lower (snd (splitext (upload_filename example_upload))) \<in> set allowed_extensions
           \<and> load silent_lib (upload_content example_upload)
               = Inr (Arr1 (replicate 48000 0), 16000)"
    by (simp add: example_upload_ext allowed_extensions_def silent_lib_load)
  note t = missing_startup_files [OF missing_files_context]
  have 1: "feature_names ?ctx = None" using t f by blast
  have 2: "scaler ?ctx = None" using t e by blast
  have 3: "\<exists>detail. snd (predict_from_audio example_runtime silent_lib ?ctx example_upload)
                 = Inl (HTTPException 500 detail)"
    using t f a by blast
  have 4: "predict example_runtime ?ctx (replicate 26 0)
       = predict example_runtime (?ctx \<lparr> feature_names := Some canonical_feature_names \<rparr>) (replicate 26 0)"
    using t f by blast
  have 5: "filter is_scaler_transform (fst (predict example_runtime ?ctx (replicate 26 0))) = []"
    using t e by blast
  have 6: "snd (predict example_runtime ?ctx (replicate 26 0))
       = Inr \<lparr>prediction = PyStr ''Bullfrog'',
              top_3 = Some [(''Bullfrog'', 1 / 2), (''Spring Peeper'', 1 / 4),
                            (''Green Treefrog'', 1 / 4)],
              probabilities = Some [1 / 2, 1 / 4, 1 / 4],
              filename = None, signed_url = None, signed_url_expires_in = None\<rparr>"
    by (simp add: missing_files_predict)
  show ?thesis
    by (intro conjI) (rule missing_files_context f s 1 2 3 4 5 6)+
qed

text \<open>
  Without the feature-order file an upload with a disallowed extension ends with the 400
  error of the extension check, not with an internal error.
\<close>

theorem missing_feature_order_bad_extension_is_400:
  "load_artifacts missing_files = Inr (example_context \<lparr> feature_names := None \<rparr>)
   \<and> features_file missing_files = None
   \<and> predict_from_audio example_runtime silent_lib (example_context \<lparr> feature_names := None \<rparr>)
       \<lparr>upload_filename = ''frog.BMP'', upload_content = ''BM''\<rparr>
     = ([], Inl (HTTPException 400
          ''Unsupported audio format: .bmp. Supported formats: .wav, .mp3, .flac, .ogg, .m4a, .aac, .wma''))"
  by (simp add: missing_files_context predict_from_audio_def bmp_ext allowed_extensions_def
      example_runtime_def) (simp add: missing_files_def)

end
